theory Spec2Isabelle
  imports Complex_Main
begin

section \<open>Values of the Python program\<close>

text \<open>
  The handler works on values produced by \<^verbatim>\<open>json.loads\<close> (the S3 notification the
  Lambda runtime hands over, and the CloudTrail log file). Such a value is \<^verbatim>\<open>None\<close>, a
  \<^verbatim>\<open>bool\<close>, an \<^verbatim>\<open>int\<close>, a \<^verbatim>\<open>float\<close>, a \<^verbatim>\<open>str\<close>, a \<^verbatim>\<open>list\<close> or a \<^verbatim>\<open>dict\<close> with
  \<^verbatim>\<open>str\<close> keys. A \<^verbatim>\<open>dict\<close> is an association list in insertion order; a key is looked up
  with \<open>map_of\<close>, so where a list repeats a key the first binding is the dictionary's.
  A \<^verbatim>\<open>float\<close> is a finite number (every finite double is a rational), the negative zero
  \<^verbatim>\<open>-0.0\<close>, or one of the three special values that \<^verbatim>\<open>json.loads\<close> accepts: an infinity with
  its sign, or the not-a-number. A \<^verbatim>\<open>str\<close> is a list of characters; the characters of the
  model are those up to U+00FF.
\<close>

datatype pyfloat = Finite rat | NegZero | Infinity bool | NaN

datatype json =
    JNull
  | JBool bool
  | JInt int
  | JFloat pyfloat
  | JStr string
  | JArr "json list"
  | JObj "(string \<times> json) list"

datatype exn =
    AttributeError string
  | TypeError string
  | KeyError string
  | IndexError string
  | JSONDecodeError string
  | OtherError string

fun str_exn :: "exn \<Rightarrow> string" where
  "str_exn (AttributeError m) = m"
| "str_exn (TypeError m) = m"
| "str_exn (KeyError m) = m"
| "str_exn (IndexError m) = m"
| "str_exn (JSONDecodeError m) = m"
| "str_exn (OtherError m) = m"

fun is_JSONDecodeError :: "exn \<Rightarrow> bool" where
  "is_JSONDecodeError (JSONDecodeError m) = True"
| "is_JSONDecodeError e = False"

definition quoted :: "string \<Rightarrow> string" where
  "quoted s = CHR 0x27 # s @ [CHR 0x27]"

fun type_name :: "json \<Rightarrow> string" where
  "type_name JNull = ''NoneType''"
| "type_name (JBool b) = ''bool''"
| "type_name (JInt i) = ''int''"
| "type_name (JFloat f) = ''float''"
| "type_name (JStr s) = ''str''"
| "type_name (JArr xs) = ''list''"
| "type_name (JObj kvs) = ''dict''"

text \<open>Truth value of a value, as \<^verbatim>\<open>not x\<close> and \<^verbatim>\<open>if x\<close> test it.\<close>

fun truthy :: "json \<Rightarrow> bool" where
  "truthy JNull = False"
| "truthy (JBool b) = b"
| "truthy (JInt i) = (i \<noteq> 0)"
| "truthy (JFloat f) = (f \<noteq> Finite 0 \<and> f \<noteq> NegZero)"
| "truthy (JStr s) = (s \<noteq> [])"
| "truthy (JArr xs) = (xs \<noteq> [])"
| "truthy (JObj kvs) = (kvs \<noteq> [])"

text \<open>\<^verbatim>\<open>x.get(k, d)\<close>: only a \<^verbatim>\<open>dict\<close> has the method.\<close>

fun py_get :: "json \<Rightarrow> string \<Rightarrow> json \<Rightarrow> exn + json" where
  "py_get (JObj kvs) k d = Inr (case map_of kvs k of None \<Rightarrow> d | Some v \<Rightarrow> v)"
| "py_get v k d =
     Inl (AttributeError (quoted (type_name v) @ '' object has no attribute '' @ quoted ''get''))"

text \<open>\<^verbatim>\<open>x[0]\<close>. The keys of a \<^verbatim>\<open>dict\<close> read from JSON are strings, so the key \<^verbatim>\<open>0\<close> is never there.\<close>

fun py_first :: "json \<Rightarrow> exn + json" where
  "py_first (JArr (x # xs)) = Inr x"
| "py_first (JArr []) = Inl (IndexError ''list index out of range'')"
| "py_first (JStr (c # cs)) = Inr (JStr [c])"
| "py_first (JStr []) = Inl (IndexError ''string index out of range'')"
| "py_first (JObj kvs) = Inl (KeyError ''0'')"
| "py_first v = Inl (TypeError (quoted (type_name v) @ '' object is not subscriptable''))"

text \<open>\<^verbatim>\<open>len(x)\<close> and the elements a \<^verbatim>\<open>for\<close> loop over \<^verbatim>\<open>x\<close> visits.\<close>

fun py_len :: "json \<Rightarrow> exn + nat" where
  "py_len (JArr xs) = Inr (length xs)"
| "py_len (JStr s) = Inr (length s)"
| "py_len (JObj kvs) = Inr (length (remdups (map fst kvs)))"
| "py_len v = Inl (TypeError (''object of type '' @ quoted (type_name v) @ '' has no len()''))"

fun py_iter :: "json \<Rightarrow> exn + json list" where
  "py_iter (JArr xs) = Inr xs"
| "py_iter (JStr s) = Inr (map (\<lambda>c. JStr [c]) s)"
| "py_iter (JObj kvs) = Inr (map JStr (remdups (map fst kvs)))"
| "py_iter v = Inl (TypeError (quoted (type_name v) @ '' object is not iterable''))"

text \<open>\<^verbatim>\<open>str(n)\<close> of a count.\<close>

definition digit_char :: "nat \<Rightarrow> char" where
  "digit_char d = ''0123456789'' ! d"

fun str_nat :: "nat \<Rightarrow> string" where
  "str_nat n = (if n < 10 then [digit_char n] else str_nat (n div 10) @ [digit_char (n mod 10)])"

declare str_nat.simps [simp del]

section \<open>The world around the handler\<close>

text \<open>
  What the program reaches through \<^verbatim>\<open>boto3\<close>, \<^verbatim>\<open>gzip\<close>, \<^verbatim>\<open>json\<close> and \<^verbatim>\<open>os.environ\<close> is
  a parameter of the model:
  \<^item> \<open>sns_topic_arn\<close> is \<^verbatim>\<open>os.environ.get('SnsArn')\<close>, read once at import;
  \<^item> \<open>s3_get_object bucket key\<close> is \<^verbatim>\<open>s3.get_object(Bucket=bucket, Key=key)['Body'].read()\<close>,
    the bytes or the exception raised (the arguments are whatever the notification held);
  \<^item> \<open>sns_publish n topic message subject\<close> is the \<^verbatim>\<open>MessageId\<close> of the response of
    \<^verbatim>\<open>sns.publish\<close>, or the exception raised by the call or by reading the \<^verbatim>\<open>MessageId\<close>, for
    the call made after \<open>n\<close> earlier ones (so that a topic may fail for one message and
    accept the next);
  \<^item> \<open>gzip_decompress\<close>, \<open>utf8_decode\<close> and \<open>json_loads\<close> are the library functions;
  \<^item> \<open>float_repr\<close> is what \<^verbatim>\<open>json.dumps\<close> writes for a \<^verbatim>\<open>float\<close> (\<^verbatim>\<open>float.__repr__\<close>, and
    \<^verbatim>\<open>NaN\<close>, \<^verbatim>\<open>Infinity\<close>, \<^verbatim>\<open>-Infinity\<close> for the special values);
  \<^item> \<open>py_repr\<close> is what an f-string prints for a value that is not a \<^verbatim>\<open>str\<close>.
  Creating a client (\<^verbatim>\<open>boto3.client\<close>) is taken not to raise.
\<close>

text \<open>
  A \<^verbatim>\<open>bytes\<close> value is the list of its bytes, each a number below 256. The handler only
  passes such values from one library function to the next and tests them for emptiness.
\<close>

type_synonym bytes = "nat list"

record env =
  sns_topic_arn :: "string option"
  s3_get_object :: "json \<Rightarrow> json \<Rightarrow> exn + bytes"
  sns_publish :: "nat \<Rightarrow> string \<Rightarrow> string \<Rightarrow> string \<Rightarrow> exn + string"
  gzip_decompress :: "bytes \<Rightarrow> exn + bytes"
  utf8_decode :: "bytes \<Rightarrow> exn + string"
  json_loads :: "string \<Rightarrow> exn + json"
  float_repr :: "pyfloat \<Rightarrow> string"
  py_repr :: "json \<Rightarrow> string"

datatype level = INFO | WARNING | ERROR | CRITICAL

text \<open>
  The effects of a run, in the order they happen: the requests sent to S3, the requests sent
  to SNS (topic, message, subject) and the entries written to the log. The logger's level is
  \<^verbatim>\<open>INFO\<close>, so a \<^verbatim>\<open>logger.debug\<close> call writes nothing; where the f-string of such a call can
  raise, the model evaluates it.
\<close>

record world =
  s3_calls :: "(json \<times> json) list"
  sns_calls :: "(string \<times> string \<times> string) list"
  logged :: "(level \<times> string) list"

definition log_msg :: "level \<Rightarrow> string \<Rightarrow> world \<Rightarrow> world" where
  "log_msg lvl m w = w\<lparr>logged := logged w @ [(lvl, m)]\<rparr>"

text \<open>A value inside an f-string: \<^verbatim>\<open>str(v)\<close>.\<close>

definition py_str :: "env \<Rightarrow> json \<Rightarrow> string" where
  "py_str env v = (case v of JStr s \<Rightarrow> s | _ \<Rightarrow> py_repr env v)"

text \<open>
  \<^verbatim>\<open>json.dumps(v, default=str)\<close> on a value read from JSON: the compact rendering with the
  default separators \<^verbatim>\<open>", "\<close> and \<^verbatim>\<open>": "\<close>, the entries of a \<^verbatim>\<open>dict\<close> in their order. Every such
  value is serialisable, so \<^verbatim>\<open>default\<close> is never called and nothing is raised.

  A string literal is written with \<^verbatim>\<open>ensure_ascii\<close>: the quote and the backslash are escaped
  with a backslash, the five control characters with a short name by that name, and every
  other character outside the range from the space to the tilde as \<^verbatim>\<open>\u00xx\<close>.
\<close>

definition hex_digit :: "nat \<Rightarrow> char" where
  "hex_digit d = ''0123456789abcdef'' ! d"

definition escape_char :: "char \<Rightarrow> string" where
  "escape_char c =
     (if c = CHR 0x22 then [CHR 0x5C, CHR 0x22]
      else if c = CHR 0x5C then [CHR 0x5C, CHR 0x5C]
      else if c = CHR 0x0A then [CHR 0x5C, CHR ''n'']
      else if c = CHR 0x0D then [CHR 0x5C, CHR ''r'']
      else if c = CHR 0x09 then [CHR 0x5C, CHR ''t'']
      else if c = CHR 0x0C then [CHR 0x5C, CHR ''f'']
      else if c = CHR 0x08 then [CHR 0x5C, CHR ''b'']
      else if (of_char c :: nat) < 32 \<or> 126 < (of_char c :: nat)
      then [CHR 0x5C, CHR ''u'', CHR ''0'', CHR ''0'',
            hex_digit (of_char c div 16), hex_digit (of_char c mod 16)]
      else [c])"

definition encode_str :: "string \<Rightarrow> string" where
  "encode_str s = CHR 0x22 # concat (map escape_char s) @ [CHR 0x22]"

fun join :: "string \<Rightarrow> string list \<Rightarrow> string" where
  "join sep [] = []"
| "join sep [x] = x"
| "join sep (x # y # ys) = x @ sep @ join sep (y # ys)"

definition str_int :: "int \<Rightarrow> string" where
  "str_int i = (if i < 0 then ''-'' @ str_nat (nat (- i)) else str_nat (nat i))"

primrec dumps :: "(pyfloat \<Rightarrow> string) \<Rightarrow> json \<Rightarrow> string" where
  "dumps fr JNull = ''null''"
| "dumps fr (JBool b) = (if b then ''true'' else ''false'')"
| "dumps fr (JInt i) = str_int i"
| "dumps fr (JFloat f) = fr f"
| "dumps fr (JStr s) = encode_str s"
| "dumps fr (JArr xs) = ''['' @ join '', '' (map (dumps fr) xs) @ '']''"
| "dumps fr (JObj kvs) =
     ''{'' @ join '', '' (map (\<lambda>(k, v). encode_str k @ '': '' @ v) (map (map_prod id (dumps fr)) kvs)) @ ''}''"

definition json_dumps :: "env \<Rightarrow> json \<Rightarrow> string" where
  "json_dumps env v = dumps (float_repr env) v"

record response =
  statusCode :: int
  body :: string

section \<open>src/LambdaCloudTrailProcess.py\<close>

definition fetch_cloudtrail_log :: "env \<Rightarrow> json \<Rightarrow> json \<Rightarrow> world \<Rightarrow> json option \<times> world" where
  "fetch_cloudtrail_log env bucket key w =
     (let w1 = w\<lparr>s3_calls := s3_calls w @ [(bucket, key)]\<rparr>;
          fetch_failed = (\<lambda>e. (None, log_msg ERROR
             (''Error fetching CloudTrail log from S3 for '' @ quoted (py_str env key) @ '': '' @ str_exn e) w1))
      in case s3_get_object env bucket key of
           Inl e \<Rightarrow> fetch_failed e
         | Inr compressed_content \<Rightarrow>
             (case (case gzip_decompress env compressed_content of
                      Inl e \<Rightarrow> Inl e | Inr raw \<Rightarrow> utf8_decode env raw) of
                Inl e \<Rightarrow> (None, log_msg WARNING
                  (''Error decompressing log file '' @ quoted (py_str env key) @ '': '' @ str_exn e) w1)
              | Inr content \<Rightarrow>
                  (case json_loads env content of
                     Inl e \<Rightarrow>
                       if is_JSONDecodeError e
                       then (None, log_msg ERROR
                         (''Error decoding JSON for file '' @ quoted (py_str env key) @ '': '' @ str_exn e) w1)
                       else fetch_failed e
                   | Inr log_data \<Rightarrow>
                       (case (case py_get log_data ''Records'' (JArr []) of
                                Inl e \<Rightarrow> Inl e | Inr rs \<Rightarrow> py_len rs) of
                          Inl e \<Rightarrow> fetch_failed e
                        | Inr n \<Rightarrow> (Some log_data, w1)))))"

definition criteria_events :: "json list" where
  "criteria_events = [JStr ''StopLogging'', JStr ''UpdateTrail'', JStr ''ConsoleLogin'', JStr ''DeleteTrail'']"

definition process_cloudtrail_event :: "env \<Rightarrow> json \<Rightarrow> world \<Rightarrow> (exn + bool) \<times> world" where
  "process_cloudtrail_event env record w =
     (case py_get record ''eventName'' JNull of
        Inl e \<Rightarrow> (Inl e, w)
      | Inr event_name \<Rightarrow>
          if event_name \<in> set criteria_events
          then (Inr True, log_msg INFO
                  (''Found matching CloudTrail event: '' @ quoted (py_str env event_name) @ ''.'') w)
          else (Inr False, w))"

definition send_to_sns :: "env \<Rightarrow> json \<Rightarrow> world \<Rightarrow> world" where
  "send_to_sns env record w =
     (case sns_topic_arn env of
        None \<Rightarrow> log_msg CRITICAL ''SNS_TOPIC_ARN is not set. Cannot send to SNS.'' w
      | Some topic \<Rightarrow>
          if topic = [] then log_msg CRITICAL ''SNS_TOPIC_ARN is not set. Cannot send to SNS.'' w
          else
            (let message = json_dumps env record in
             case py_get record ''eventName'' (JStr ''Unknown'') of
               Inl e \<Rightarrow> log_msg ERROR (''Error sending event to SNS: '' @ str_exn e) w
             | Inr name \<Rightarrow>
                 (let subject = ''CloudTrail Event: '' @ py_str env name;
                      w1 = w\<lparr>sns_calls := sns_calls w @ [(topic, message, subject)]\<rparr>
                  in case sns_publish env (length (sns_calls w)) topic message subject of
                       Inl e \<Rightarrow> log_msg ERROR (''Error sending event to SNS: '' @ str_exn e) w1
                     | Inr message_id \<Rightarrow>
                         log_msg INFO (''Event sent to SNS. Message ID: '' @ message_id) w1)))"

text \<open>
  The \<^verbatim>\<open>for record in ...\<close> loop of \<^verbatim>\<open>lambda_handler\<close>, with its two counters. An exception
  raised for a record leaves the loop; what was published before stays published.
\<close>

fun process_records :: "env \<Rightarrow> json list \<Rightarrow> nat \<Rightarrow> nat \<Rightarrow> world \<Rightarrow> (exn + nat \<times> nat) \<times> world" where
  "process_records env [] processed_count matching_count w =
     (Inr (processed_count, matching_count), w)"
| "process_records env (record # rest) processed_count matching_count w =
     (case process_cloudtrail_event env record w of
        (Inl e, w1) \<Rightarrow> (Inl e, w1)
      | (Inr False, w1) \<Rightarrow> process_records env rest (processed_count + 1) matching_count w1
      | (Inr True, w1) \<Rightarrow>
          (case (case py_get record ''eventName'' JNull of
                   Inl e \<Rightarrow> Inl e
                 | Inr name \<Rightarrow>
                     (case py_get record ''eventID'' (JStr ''N/A'') of
                        Inl e \<Rightarrow> Inl e
                      | Inr event_id \<Rightarrow> Inr (''Found matching event: '' @ quoted (py_str env name)
                          @ '' (Event ID: '' @ quoted (py_str env event_id) @ ''). Sending to SNS.''))) of
             Inl e \<Rightarrow> (Inl e, w1)
           | Inr m \<Rightarrow>
               process_records env rest (processed_count + 1) (matching_count + 1)
                 (send_to_sns env record (log_msg INFO m w1))))"

text \<open>
  The dictionary the handler returns: \<^verbatim>\<open>{'statusCode': code, 'body': json.dumps({field: text})}\<close>.
\<close>

definition response_of :: "env \<Rightarrow> int \<Rightarrow> string \<Rightarrow> string \<Rightarrow> response" where
  "response_of env code field text = \<lparr>statusCode = code, body = json_dumps env (JObj [(field, JStr text)])\<rparr>"

text \<open>
  The \<^verbatim>\<open>try\<close> block of \<^verbatim>\<open>lambda_handler\<close>, in two parts: \<open>process_log_file\<close> is the
  block from the line that logs "Processing CloudTrail log file" to its end, and
  \<open>handler_body\<close> is the part before it, which reads the bucket and the key off the event.
  Each gives the response returned or the exception raised.
\<close>

definition process_log_file :: "env \<Rightarrow> json \<Rightarrow> json \<Rightarrow> world \<Rightarrow> (exn + response) \<times> world" where
  "process_log_file env bucket key w =
     (let w1 = log_msg INFO (''Processing CloudTrail log file: '' @ quoted (py_str env key)
                 @ '' from bucket: '' @ quoted (py_str env bucket)) w
      in case fetch_cloudtrail_log env bucket key w1 of
           (None, w2) \<Rightarrow>
             (Inr (response_of env 500 ''error''
                     (''Failed to retrieve or process CloudTrail logs: '' @ py_str env key)),
              log_msg ERROR (''Failed to fetch or process CloudTrail log from S3. ''
                @ ''Exiting processing for '' @ quoted (py_str env key) @ ''.'') w2)
         | (Some log_data, w2) \<Rightarrow>
             (case (case py_get log_data ''Records'' (JArr []) of
                      Inl e \<Rightarrow> Inl e | Inr rs \<Rightarrow> py_iter rs) of
                Inl e \<Rightarrow> (Inl e, w2)
              | Inr recs \<Rightarrow>
                  (case process_records env recs 0 0 w2 of
                     (Inl e, w3) \<Rightarrow> (Inl e, w3)
                   | (Inr (processed_count, matching_count), w3) \<Rightarrow>
                       (Inr (response_of env 200 ''message''
                          (''Successfully processed CloudTrail log: '' @ py_str env key
                           @ ''. Found '' @ str_nat matching_count @ '' matching events.'')),
                        log_msg INFO (''Successfully processed '' @ str_nat processed_count
                          @ '' records from '' @ quoted (py_str env key) @ ''. Found ''
                          @ str_nat matching_count @ '' matching events.'') w3))))"

definition handler_body :: "env \<Rightarrow> json \<Rightarrow> world \<Rightarrow> (exn + response) \<times> world" where
  "handler_body env event w =
     (case py_get event ''Records'' (JArr []) of
        Inl e \<Rightarrow> (Inl e, w)
      | Inr records \<Rightarrow>
          if \<not> truthy records
          then (Inr (response_of env 200 ''message'' ''No S3 records to process.''),
                log_msg WARNING ''No S3 records found in the event.'' w)
          else
            (case py_first records of Inl e \<Rightarrow> (Inl e, w) | Inr first_record \<Rightarrow>
            (case py_get first_record ''s3'' (JObj []) of Inl e \<Rightarrow> (Inl e, w) | Inr s3_info \<Rightarrow>
            (case py_get s3_info ''bucket'' (JObj []) of Inl e \<Rightarrow> (Inl e, w) | Inr bucket_info \<Rightarrow>
            (case py_get s3_info ''object'' (JObj []) of Inl e \<Rightarrow> (Inl e, w) | Inr object_info \<Rightarrow>
            (case py_get bucket_info ''name'' JNull of Inl e \<Rightarrow> (Inl e, w) | Inr bucket \<Rightarrow>
            (case py_get object_info ''key'' JNull of Inl e \<Rightarrow> (Inl e, w) | Inr key \<Rightarrow>
               if \<not> truthy bucket \<or> \<not> truthy key
               then (Inr (response_of env 400 ''error'' ''Invalid S3 event format.''),
                     log_msg ERROR (''Could not extract bucket name or key from the S3 event: ''
                       @ py_str env event) w)
               else process_log_file env bucket key w)))))))"

definition lambda_handler :: "env \<Rightarrow> json \<Rightarrow> world \<Rightarrow> response \<times> world" where
  "lambda_handler env event w =
     (case handler_body env event
             (log_msg INFO (''Lambda function invoked with event: '' @ py_str env event) w) of
        (Inr r, w1) \<Rightarrow> (r, w1)
      | (Inl e, w1) \<Rightarrow>
          (response_of env 500 ''error'' (''Error processing S3 event: '' @ str_exn e),
           log_msg CRITICAL (''An unhandled exception occurred during processing: '' @ str_exn e) w1))"


section \<open>src/lambda/LambdaCloudTrailProcess copy.py\<close>


definition matching_rule :: "env \<Rightarrow> json \<Rightarrow> world \<Rightarrow> (exn + bool) \<times> world" where
  "matching_rule env record w =
     (case py_get record ''eventName'' JNull of
        Inl e \<Rightarrow> (Inl e, w)
      | Inr event_name \<Rightarrow>
          if event_name \<in> set criteria_events
          then (Inr True, log_msg INFO
                  (''Found matching CloudTrail event: '' @ quoted (py_str env event_name) @ ''.'') w)
          else (Inr False, w))"








section \<open>The vocabulary of the specification\<close>

text \<open>
  The specification speaks of a notification's first record, of its bucket name and object
  key (the fields \<^verbatim>\<open>s3.bucket.name\<close> and \<^verbatim>\<open>s3.object.key\<close>), of the \<^verbatim>\<open>Records\<close> of a
  payload and of records whose \<^verbatim>\<open>eventName\<close> is in the matched set. These are read off a
  value here, independently of the handler.
\<close>

fun field :: "string \<Rightarrow> json \<Rightarrow> json option" where
  "field k (JObj kvs) = map_of kvs k"
| "field k v = None"

fun is_dict :: "json \<Rightarrow> bool" where
  "is_dict (JObj kvs) = True"
| "is_dict v = False"

definition first_record :: "json \<Rightarrow> json option" where
  "first_record event =
     (case field ''Records'' event of Some (JArr (r # rs)) \<Rightarrow> Some r | _ \<Rightarrow> None)"

definition bucket_name :: "json \<Rightarrow> json option" where
  "bucket_name r = Option.bind (Option.bind (field ''s3'' r) (field ''bucket'')) (field ''name'')"

definition object_key :: "json \<Rightarrow> json option" where
  "object_key r = Option.bind (Option.bind (field ''s3'' r) (field ''object'')) (field ''key'')"




definition matched_names :: "string list" where
  "matched_names = [''StopLogging'', ''UpdateTrail'', ''ConsoleLogin'', ''DeleteTrail'']"

definition matches :: "json \<Rightarrow> bool" where
  "matches r = (case field ''eventName'' r of Some (JStr n) \<Rightarrow> n \<in> set matched_names | _ \<Rightarrow> False)"

text \<open>The topic, when one is configured: \<^verbatim>\<open>SnsArn\<close> is set and not empty.\<close>

definition configured_topic :: "env \<Rightarrow> string option" where
  "configured_topic env =
     (case sns_topic_arn env of None \<Rightarrow> None | Some t \<Rightarrow> if t = [] then None else Some t)"

text \<open>The request that publishes record \<open>r\<close>: topic, message body and subject line.\<close>

definition alert :: "env \<Rightarrow> string \<Rightarrow> json \<Rightarrow> string \<times> string \<times> string" where
  "alert env topic r =
     (topic, json_dumps env r,
      ''CloudTrail Event: '' @ (case field ''eventName'' r of Some (JStr n) \<Rightarrow> n | _ \<Rightarrow> []))"

text \<open>The requests that publish the records \<open>rs\<close>, one after the other; none without a topic.\<close>

definition alerts :: "env \<Rightarrow> json list \<Rightarrow> (string \<times> string \<times> string) list" where
  "alerts env rs = (case configured_topic env of None \<Rightarrow> [] | Some t \<Rightarrow> map (alert env t) rs)"

text \<open>What a payload has to be for the log file to be read: the stages of the retrieval all succeed.\<close>

definition payload :: "env \<Rightarrow> json \<Rightarrow> json \<Rightarrow> json option" where
  "payload env bucket key =
     (case s3_get_object env bucket key of Inl e \<Rightarrow> None | Inr compressed \<Rightarrow>
        (case gzip_decompress env compressed of Inl e \<Rightarrow> None | Inr raw \<Rightarrow>
           (case utf8_decode env raw of Inl e \<Rightarrow> None | Inr content \<Rightarrow>
              (case json_loads env content of Inl e \<Rightarrow> None | Inr v \<Rightarrow> Some v))))"

text \<open>
  What is assumed of the printing of floats, which the model does not spell out: different
  floats are printed differently, and a printed float is not empty, starts like a number or
  like \<^verbatim>\<open>NaN\<close> or \<^verbatim>\<open>Infinity\<close>, contains none of the characters that end a value inside a list
  or a mapping, and is not the decimal numeral of an integer (\<^verbatim>\<open>float.__repr__\<close> always writes
  a point, an exponent or a name).
\<close>

definition delim :: "char \<Rightarrow> bool" where
  "delim c \<longleftrightarrow> c = CHR '','' \<or> c = CHR '']'' \<or> c = CHR ''}''"

definition tail_ok :: "string \<Rightarrow> bool" where
  "tail_ok s = (case s of [] \<Rightarrow> True | c # cs \<Rightarrow> delim c)"

definition float_repr_ok :: "(pyfloat \<Rightarrow> string) \<Rightarrow> bool" where
  "float_repr_ok fr \<longleftrightarrow>
     inj fr \<and>
     (\<forall>f. fr f \<noteq> [] \<and> hd (fr f) \<in> set ''-0123456789NI'' \<and> (\<forall>c \<in> set (fr f). \<not> delim c)
          \<and> (\<forall>i. fr f \<noteq> str_int i))"

text \<open>The number of entries of level \<^verbatim>\<open>CRITICAL\<close> in the log.\<close>

definition critical_count :: "world \<Rightarrow> nat" where
  "critical_count w = length (filter (\<lambda>entry. fst entry = CRITICAL) (logged w))"

section \<open>Example inputs\<close>

text \<open>
  A notification for one object, three CloudTrail records, and an environment in which S3 holds
  one file. The library functions of the example environment are stand-ins that know this one
  file: its bytes decompress, the result decodes to a text (written \<open>''<log>''\<close>), and that
  text parses to the batch the environment is given. The topic refuses the first message it is
  sent and accepts the later ones. Most strings of the examples need no escapes, so that their
  literal is the string in double quotes. The stand-in for the printing of floats writes a
  finite number as its numerator, a point and its denominator less one (an integral float
  \<open>n\<close> as \<^verbatim>\<open>n.0\<close>, as Python does); values printed by \<^verbatim>\<open>repr\<close> do not occur.
\<close>

definition example_s3_record :: json where
  "example_s3_record =
     JObj [(''eventSource'', JStr ''aws:s3''),
       (''s3'', JObj [(''bucket'', JObj [(''name'', JStr ''trail-bucket'')]),
                     (''object'', JObj [(''key'', JStr ''AWSLogs/a.json.gz'')])])]"

definition example_event :: json where
  "example_event = JObj [(''Records'', JArr [example_s3_record])]"



definition stop_logging :: json where
  "stop_logging = JObj [(''eventName'', JStr ''StopLogging''), (''eventID'', JStr ''e-1''),
                        (''awsRegion'', JStr ''us-east-1'')]"

definition list_buckets :: json where
  "list_buckets = JObj [(''eventName'', JStr ''ListBuckets''), (''eventID'', JStr ''e-2'')]"

definition console_login :: json where
  "console_login = JObj [(''eventID'', JStr ''e-3''), (''eventName'', JStr ''ConsoleLogin'')]"

definition batch_of :: "json list \<Rightarrow> json" where
  "batch_of rs = JObj [(''Records'', JArr rs)]"

definition double_quoted :: "string \<Rightarrow> string" where
  "double_quoted s = CHR 0x22 # s @ [CHR 0x22]"

text \<open>A record with a field of every kind of value, and a string that needs escapes.\<close>

definition rich_record :: json where
  "rich_record =
     JObj [(''eventName'', JStr ''DeleteTrail''),
           (''readOnly'', JBool False),
           (''errorCode'', JNull),
           (''attempts'', JInt 3),
           (''offset'', JInt (- 12)),
           (''latency'', JFloat (Finite 2)),
           (''drift'', JFloat NegZero),
           (''resources'', JArr [JStr ''trail/a'', JArr [], JBool True]),
           (''userIdentity'', JObj [(''type'', JStr ''Root''), (''note'', JStr (double_quoted ''hi''))])]"

definition example_float_repr :: "pyfloat \<Rightarrow> string" where
  "example_float_repr f =
     (case f of
        Finite q \<Rightarrow> str_int (fst (quotient_of q)) @ ''.'' @ str_nat (nat (snd (quotient_of q)) - 1)
      | NegZero \<Rightarrow> ''-0.0''
      | Infinity positive \<Rightarrow> (if positive then ''Infinity'' else ''-Infinity'')
      | NaN \<Rightarrow> ''NaN'')"

definition example_env :: "string option \<Rightarrow> json \<Rightarrow> env" where
  "example_env topic batch =
     \<lparr>sns_topic_arn = topic,
      s3_get_object = (\<lambda>bucket key.
         if bucket = JStr ''trail-bucket'' \<and> key = JStr ''AWSLogs/a.json.gz''
         then Inr [31, 139, 8] else Inl (OtherError ''NoSuchKey'')),
      sns_publish = (\<lambda>n topic message subject.
         if n = 0 then Inl (OtherError ''Throttling'') else Inr ''message-id''),
      gzip_decompress = (\<lambda>bs.
         if bs = [31, 139, 8] then Inr [60, 108, 111, 103, 62] else Inl (OtherError ''Not a gzipped file'')),
      utf8_decode = (\<lambda>bs.
         if bs = [60, 108, 111, 103, 62] then Inr ''<log>'' else Inl (OtherError ''invalid start byte'')),
      json_loads = (\<lambda>text.
         if text = ''<log>'' then Inr batch else Inl (JSONDecodeError ''Expecting value'')),
      float_repr = example_float_repr,
      py_repr = (\<lambda>v. ''...'')\<rparr>"

definition empty_world :: world where
  "empty_world = \<lparr>s3_calls = [], sns_calls = [], logged = []\<rparr>"

section \<open>Effects of the building blocks\<close>

lemma sns_calls_log_msg [simp]: "sns_calls (log_msg l m w) = sns_calls w"
  and s3_calls_log_msg [simp]: "s3_calls (log_msg l m w) = s3_calls w"
  and logged_log_msg [simp]: "logged (log_msg l m w) = logged w @ [(l, m)]"
  by (simp_all add: log_msg_def)

lemma critical_count_log_msg [simp]:
  "critical_count (log_msg l m w) = critical_count w + (if l = CRITICAL then 1 else 0)"
  by (simp add: critical_count_def)

lemma critical_count_calls [simp]:
  "critical_count (w\<lparr>s3_calls := a\<rparr>) = critical_count w"
  "critical_count (w\<lparr>sns_calls := b\<rparr>) = critical_count w"
  by (simp_all add: critical_count_def)

lemma str_nat_0 [simp]: "str_nat 0 = ''0''"
  by (simp add: str_nat.simps digit_char_def)

lemma alerts_Nil [simp]: "alerts env [] = []"
  by (simp add: alerts_def split: option.splits)

lemma alerts_Cons: "alerts env (r # rs) = alerts env [r] @ alerts env rs"
  by (simp add: alerts_def split: option.splits)

lemma alerts_configured: "configured_topic env = Some t \<Longrightarrow> alerts env rs = map (alert env t) rs"
  by (simp add: alerts_def)

lemma alerts_unconfigured: "configured_topic env = None \<Longrightarrow> alerts env rs = []"
  by (simp add: alerts_def)

lemma process_event_dict:
  "process_cloudtrail_event env (JObj kvs) w =
     (Inr (matches (JObj kvs)),
      if matches (JObj kvs)
      then log_msg INFO (''Found matching CloudTrail event: ''
             @ quoted (py_str env (the (map_of kvs ''eventName''))) @ ''.'') w
      else w)"
  by (auto simp: process_cloudtrail_event_def matches_def criteria_events_def matched_names_def
      split: option.splits json.splits)

lemma matching_rule_dict:
  "matching_rule env (JObj kvs) w =
     (Inr (matches (JObj kvs)),
      if matches (JObj kvs)
      then log_msg INFO (''Found matching CloudTrail event: ''
             @ quoted (py_str env (the (map_of kvs ''eventName''))) @ ''.'') w
      else w)"
  by (auto simp: matching_rule_def matches_def criteria_events_def matched_names_def
      split: option.splits json.splits)

lemma send_to_sns_calls:
  "matches r \<Longrightarrow> sns_calls (send_to_sns env r w) = sns_calls w @ alerts env [r]"
  by (cases r) (auto simp: send_to_sns_def configured_topic_def alert_def alerts_def matches_def
      py_str_def Let_def split: option.splits sum.splits json.splits)

lemma send_to_sns_s3 [simp]: "s3_calls (send_to_sns env r w) = s3_calls w"
  by (auto simp: send_to_sns_def Let_def split: option.splits sum.splits)

lemma send_to_sns_critical:
  "critical_count (send_to_sns env r w) =
     critical_count w + (if configured_topic env = None then 1 else 0)"
  by (auto simp: send_to_sns_def configured_topic_def Let_def split: option.splits sum.splits)

subsection \<open>The loop over the records of a batch\<close>

lemma process_records_result:
  "list_all is_dict recs \<Longrightarrow>
   fst (process_records env recs pc mc w) = Inr (pc + length recs, mc + length (filter matches recs))"
proof (induction recs arbitrary: pc mc w)
  case Nil
  then show ?case by simp
next
  case (Cons r recs)
  then obtain kvs where r: "r = JObj kvs" by (cases r) auto
  with Cons show ?case
    by (simp add: process_event_dict)
qed

lemma process_records_sns:
  "list_all is_dict recs \<Longrightarrow>
   sns_calls (snd (process_records env recs pc mc w)) = sns_calls w @ alerts env (filter matches recs)"
proof (induction recs arbitrary: pc mc w)
  case Nil
  then show ?case by simp
next
  case (Cons r recs)
  then obtain kvs where r: "r = JObj kvs" by (cases r) auto
  with Cons show ?case
    by (simp add: process_event_dict send_to_sns_calls alerts_Cons [of env "JObj kvs" "filter matches recs"])
qed

lemma process_records_s3:
  "list_all is_dict recs \<Longrightarrow> s3_calls (snd (process_records env recs pc mc w)) = s3_calls w"
proof (induction recs arbitrary: pc mc w)
  case Nil
  then show ?case by simp
next
  case (Cons r recs)
  then obtain kvs where r: "r = JObj kvs" by (cases r) auto
  with Cons show ?case
    by (simp add: process_event_dict)
qed

lemma process_records_critical:
  "list_all is_dict recs \<Longrightarrow>
   critical_count (snd (process_records env recs pc mc w)) =
     critical_count w + (if configured_topic env = None then length (filter matches recs) else 0)"
proof (induction recs arbitrary: pc mc w)
  case Nil
  then show ?case by simp
next
  case (Cons r recs)
  then obtain kvs where r: "r = JObj kvs" by (cases r) auto
  with Cons show ?case
    by (simp add: process_event_dict send_to_sns_critical)
qed

subsection \<open>Retrieval\<close>

lemma fetch_sns: "sns_calls (snd (fetch_cloudtrail_log env bucket key w)) = sns_calls w"
  by (simp add: fetch_cloudtrail_log_def Let_def split: sum.splits)

lemma fetch_s3_calls:
  "s3_calls (snd (fetch_cloudtrail_log env bucket key w)) = s3_calls w @ [(bucket, key)]"
  by (simp add: fetch_cloudtrail_log_def Let_def split: sum.splits)

lemma fetch_critical:
  "critical_count (snd (fetch_cloudtrail_log env bucket key w)) = critical_count w"
  by (simp add: fetch_cloudtrail_log_def Let_def split: sum.splits)

lemma fetch_payload_None:
  "payload env bucket key = None \<Longrightarrow> fst (fetch_cloudtrail_log env bucket key w) = None"
  by (auto simp add: fetch_cloudtrail_log_def payload_def Let_def split: sum.splits)

lemma fetch_payload_dict:
  assumes "payload env bucket key = Some (JObj d)"
    and "map_of d ''Records'' = None \<or> map_of d ''Records'' = Some (JArr recs)"
  shows "fst (fetch_cloudtrail_log env bucket key w) = Some (JObj d)"
  using assms
  by (auto simp add: fetch_cloudtrail_log_def payload_def Let_def split: sum.splits)

text \<open>The payload is missing exactly when one of the four stages of the retrieval raises.\<close>

lemma payload_None_iff:
  "payload env bucket key = None \<longleftrightarrow>
     (\<exists>e. s3_get_object env bucket key = Inl e)
   \<or> (\<exists>c e. s3_get_object env bucket key = Inr c \<and> gzip_decompress env c = Inl e)
   \<or> (\<exists>c raw e. s3_get_object env bucket key = Inr c \<and> gzip_decompress env c = Inr raw
         \<and> utf8_decode env raw = Inl e)
   \<or> (\<exists>c raw text e. s3_get_object env bucket key = Inr c \<and> gzip_decompress env c = Inr raw
         \<and> utf8_decode env raw = Inr text \<and> json_loads env text = Inl e)"
  by (auto simp add: payload_def split: sum.splits)

subsection \<open>Reading the location off the notification\<close>

lemma field_Some_dict: "field k v = Some x \<Longrightarrow> \<exists>kvs. v = JObj kvs \<and> map_of kvs k = Some x"
  by (cases v) simp_all

lemma first_record_Some:
  assumes "first_record event = Some r"
  obtains ev rs where "event = JObj ev" and "map_of ev ''Records'' = Some (JArr (r # rs))"
proof -
  from assms obtain rs where "field ''Records'' event = Some (JArr (r # rs))"
    by (auto simp: first_record_def split: option.splits json.splits list.splits)
  with that show thesis by (auto dest: field_Some_dict)
qed

lemma bucket_name_Some:
  assumes "bucket_name r = Some bucket"
  obtains fr s3 b where "r = JObj fr" and "map_of fr ''s3'' = Some (JObj s3)"
    and "map_of s3 ''bucket'' = Some (JObj b)" and "map_of b ''name'' = Some bucket"
proof -
  from assms obtain x y where "field ''s3'' r = Some x" "field ''bucket'' x = Some y"
      "field ''name'' y = Some bucket"
    by (auto simp: bucket_name_def split: Option.bind_splits)
  with that show thesis by (auto dest!: field_Some_dict)
qed

lemma object_key_Some:
  assumes "object_key r = Some key"
  obtains fr s3 ob where "r = JObj fr" and "map_of fr ''s3'' = Some (JObj s3)"
    and "map_of s3 ''object'' = Some (JObj ob)" and "map_of ob ''key'' = Some key"
proof -
  from assms obtain x y where "field ''s3'' r = Some x" "field ''object'' x = Some y"
      "field ''key'' y = Some key"
    by (auto simp: object_key_def split: Option.bind_splits)
  with that show thesis by (auto dest!: field_Some_dict)
qed

lemma handler_body_located:
  assumes "first_record event = Some r" and "bucket_name r = Some bucket"
    and "object_key r = Some key" and "truthy bucket" and "truthy key"
  shows "handler_body env event w = process_log_file env bucket key w"
proof -
  from assms(1) obtain ev rs where ev: "event = JObj ev" "map_of ev ''Records'' = Some (JArr (r # rs))"
    by (rule first_record_Some)
  from assms(2) obtain fr s3 b where b: "r = JObj fr" "map_of fr ''s3'' = Some (JObj s3)"
      "map_of s3 ''bucket'' = Some (JObj b)" "map_of b ''name'' = Some bucket"
    by (rule bucket_name_Some)
  from assms(3) obtain fr' s3' ob where ob: "r = JObj fr'" "map_of fr' ''s3'' = Some (JObj s3')"
      "map_of s3' ''object'' = Some (JObj ob)" "map_of ob ''key'' = Some key"
    by (rule object_key_Some)
  from b ob have same: "fr' = fr" "s3' = s3" by simp_all
  show ?thesis
    using assms(4,5) ev b ob(3,4) [unfolded same]
    by (simp add: handler_body_def)
qed




lemma handler_body_no_records:
  assumes "map_of ev ''Records'' = None \<or> map_of ev ''Records'' = Some (JArr [])"
  shows "handler_body env (JObj ev) w =
           (Inr (response_of env 200 ''message'' ''No S3 records to process.''),
            log_msg WARNING ''No S3 records found in the event.'' w)"
  using assms by (auto simp add: handler_body_def)

subsection \<open>The log file is read\<close>

lemma process_log_file_failed:
  assumes "payload env bucket key = None"
  shows "fst (process_log_file env bucket key w) =
           Inr (response_of env 500 ''error''
                  (''Failed to retrieve or process CloudTrail logs: '' @ py_str env key))"
    and "sns_calls (snd (process_log_file env bucket key w)) = sns_calls w"
    and "s3_calls (snd (process_log_file env bucket key w)) = s3_calls w @ [(bucket, key)]"
    and "critical_count (snd (process_log_file env bucket key w)) = critical_count w"
proof -
  let ?w1 = "log_msg INFO (''Processing CloudTrail log file: '' @ quoted (py_str env key)
                 @ '' from bucket: '' @ quoted (py_str env bucket)) w"
  obtain w2 where f: "fetch_cloudtrail_log env bucket key ?w1 = (None, w2)"
    using fetch_payload_None [OF assms, of ?w1] by (cases "fetch_cloudtrail_log env bucket key ?w1") simp
  have "sns_calls w2 = sns_calls w" "s3_calls w2 = s3_calls w @ [(bucket, key)]"
      "critical_count w2 = critical_count w"
    using fetch_sns [of env bucket key ?w1] fetch_s3_calls [of env bucket key ?w1]
      fetch_critical [of env bucket key ?w1]
    unfolding f by simp_all
  then show "fst (process_log_file env bucket key w) =
           Inr (response_of env 500 ''error''
                  (''Failed to retrieve or process CloudTrail logs: '' @ py_str env key))"
    and "sns_calls (snd (process_log_file env bucket key w)) = sns_calls w"
    and "s3_calls (snd (process_log_file env bucket key w)) = s3_calls w @ [(bucket, key)]"
    and "critical_count (snd (process_log_file env bucket key w)) = critical_count w"
    unfolding process_log_file_def Let_def f by simp_all
qed

lemma process_log_file_valid:
  assumes "payload env bucket key = Some (JObj d)"
    and "map_of d ''Records'' = None \<and> recs = [] \<or> map_of d ''Records'' = Some (JArr recs)"
    and "list_all is_dict recs"
  shows "fst (process_log_file env bucket key w) =
           Inr (response_of env 200 ''message''
                  (''Successfully processed CloudTrail log: '' @ py_str env key
                   @ ''. Found '' @ str_nat (length (filter matches recs)) @ '' matching events.''))"
    and "sns_calls (snd (process_log_file env bucket key w)) = sns_calls w @ alerts env (filter matches recs)"
    and "s3_calls (snd (process_log_file env bucket key w)) = s3_calls w @ [(bucket, key)]"
    and "last (logged (snd (process_log_file env bucket key w))) =
           (INFO, ''Successfully processed '' @ str_nat (length recs)
                          @ '' records from '' @ quoted (py_str env key) @ ''. Found ''
                          @ str_nat (length (filter matches recs)) @ '' matching events.'')"
    and "critical_count (snd (process_log_file env bucket key w)) =
           critical_count w + (if configured_topic env = None then length (filter matches recs) else 0)"
proof -
  let ?w1 = "log_msg INFO (''Processing CloudTrail log file: '' @ quoted (py_str env key)
                 @ '' from bucket: '' @ quoted (py_str env bucket)) w"
  from assms(2) have rec': "map_of d ''Records'' = None \<or> map_of d ''Records'' = Some (JArr recs)"
    by auto
  obtain w2 where f: "fetch_cloudtrail_log env bucket key ?w1 = (Some (JObj d), w2)"
    using fetch_payload_dict [OF assms(1) rec', of ?w1]
    by (cases "fetch_cloudtrail_log env bucket key ?w1") simp
  have w2: "sns_calls w2 = sns_calls w" "s3_calls w2 = s3_calls w @ [(bucket, key)]"
      "critical_count w2 = critical_count w"
    using fetch_sns [of env bucket key ?w1] fetch_s3_calls [of env bucket key ?w1]
      fetch_critical [of env bucket key ?w1]
    unfolding f by simp_all
  have it: "(case py_get (JObj d) ''Records'' (JArr []) of Inl e \<Rightarrow> Inl e | Inr rs \<Rightarrow> py_iter rs) = Inr recs"
    using assms(2) by auto
  obtain w3 where p: "process_records env recs 0 0 w2 = (Inr (length recs, length (filter matches recs)), w3)"
    using process_records_result [OF assms(3), of env 0 0 w2]
    by (cases "process_records env recs 0 0 w2") simp
  have w3: "sns_calls w3 = sns_calls w2 @ alerts env (filter matches recs)" "s3_calls w3 = s3_calls w2"
      "critical_count w3 = critical_count w2
         + (if configured_topic env = None then length (filter matches recs) else 0)"
    using process_records_sns [OF assms(3), of env 0 0 w2] process_records_s3 [OF assms(3), of env 0 0 w2]
      process_records_critical [OF assms(3), of env 0 0 w2]
    unfolding p by simp_all
  show "fst (process_log_file env bucket key w) =
           Inr (response_of env 200 ''message''
                  (''Successfully processed CloudTrail log: '' @ py_str env key
                   @ ''. Found '' @ str_nat (length (filter matches recs)) @ '' matching events.''))"
    and "sns_calls (snd (process_log_file env bucket key w)) = sns_calls w @ alerts env (filter matches recs)"
    and "s3_calls (snd (process_log_file env bucket key w)) = s3_calls w @ [(bucket, key)]"
    and "last (logged (snd (process_log_file env bucket key w))) =
           (INFO, ''Successfully processed '' @ str_nat (length recs)
                          @ '' records from '' @ quoted (py_str env key) @ ''. Found ''
                          @ str_nat (length (filter matches recs)) @ '' matching events.'')"
    and "critical_count (snd (process_log_file env bucket key w)) =
           critical_count w + (if configured_topic env = None then length (filter matches recs) else 0)"
    unfolding process_log_file_def Let_def f prod.case option.case it sum.case p
    by (simp_all add: w2 w3)
qed

subsection \<open>The handler as a whole\<close>

text \<open>When the \<^verbatim>\<open>try\<close> block returns, the handler returns the same response and has the same effects.\<close>

lemma lambda_handler_returns:
  assumes "handler_body env event
             (log_msg INFO (''Lambda function invoked with event: '' @ py_str env event) w) = (Inr r, w')"
  shows "lambda_handler env event w = (r, w')"
  unfolding lambda_handler_def assms by simp




lemma lambda_handler_no_records:
  assumes "map_of ev ''Records'' = None \<or> map_of ev ''Records'' = Some (JArr [])"
  shows "fst (lambda_handler env (JObj ev) w) = response_of env 200 ''message'' ''No S3 records to process.''"
    and "s3_calls (snd (lambda_handler env (JObj ev) w)) = s3_calls w"
    and "sns_calls (snd (lambda_handler env (JObj ev) w)) = sns_calls w"
  by (simp_all add: lambda_handler_returns [OF handler_body_no_records [OF assms]])

lemma lambda_handler_located:
  assumes "first_record event = Some r" and "bucket_name r = Some bucket"
    and "object_key r = Some key" and "truthy bucket" and "truthy key"
    and "fst (process_log_file env bucket key
           (log_msg INFO (''Lambda function invoked with event: '' @ py_str env event) w)) = Inr resp"
  shows "lambda_handler env event w =
           (resp, snd (process_log_file env bucket key
              (log_msg INFO (''Lambda function invoked with event: '' @ py_str env event) w)))"
proof (rule lambda_handler_returns)
  show "handler_body env event
          (log_msg INFO (''Lambda function invoked with event: '' @ py_str env event) w) =
        (Inr resp, snd (process_log_file env bucket key
              (log_msg INFO (''Lambda function invoked with event: '' @ py_str env event) w)))"
    unfolding handler_body_located [OF assms(1-5)]
    using assms(6) by (metis prod.collapse)
qed

lemma lambda_handler_failed:
  assumes "first_record event = Some r" and "bucket_name r = Some bucket"
    and "object_key r = Some key" and "truthy bucket" and "truthy key"
    and "payload env bucket key = None"
  shows "fst (lambda_handler env event w) =
           response_of env 500 ''error''
             (''Failed to retrieve or process CloudTrail logs: '' @ py_str env key)"
    and "sns_calls (snd (lambda_handler env event w)) = sns_calls w"
    and "s3_calls (snd (lambda_handler env event w)) = s3_calls w @ [(bucket, key)]"
    and "critical_count (snd (lambda_handler env event w)) = critical_count w"
  unfolding lambda_handler_located [OF assms(1-5) process_log_file_failed(1) [OF assms(6)]]
  by (simp_all add: process_log_file_failed(2-4) [OF assms(6)])

lemma lambda_handler_valid:
  assumes "first_record event = Some r" and "bucket_name r = Some bucket"
    and "object_key r = Some key" and "truthy bucket" and "truthy key"
    and "payload env bucket key = Some (JObj d)"
    and "map_of d ''Records'' = None \<and> recs = [] \<or> map_of d ''Records'' = Some (JArr recs)"
    and "list_all is_dict recs"
  shows "fst (lambda_handler env event w) =
           response_of env 200 ''message''
             (''Successfully processed CloudTrail log: '' @ py_str env key
              @ ''. Found '' @ str_nat (length (filter matches recs)) @ '' matching events.'')"
    and "sns_calls (snd (lambda_handler env event w)) = sns_calls w @ alerts env (filter matches recs)"
    and "s3_calls (snd (lambda_handler env event w)) = s3_calls w @ [(bucket, key)]"
    and "last (logged (snd (lambda_handler env event w))) =
           (INFO, ''Successfully processed '' @ str_nat (length recs)
                          @ '' records from '' @ quoted (py_str env key) @ ''. Found ''
                          @ str_nat (length (filter matches recs)) @ '' matching events.'')"
    and "critical_count (snd (lambda_handler env event w)) =
           critical_count w + (if configured_topic env = None then length (filter matches recs) else 0)"
  unfolding lambda_handler_located [OF assms(1-5) process_log_file_valid(1) [OF assms(6-8)]]
  by (simp_all add: process_log_file_valid(2-5) [OF assms(6-8)])

text \<open>What \<^verbatim>\<open>sns.publish\<close> answers has no part in what is read, matched or reported.\<close>

lemma publish_update:
  "payload (env\<lparr>sns_publish := publish\<rparr>) bucket key = payload env bucket key"
  "configured_topic (env\<lparr>sns_publish := publish\<rparr>) = configured_topic env"
  "alert (env\<lparr>sns_publish := publish\<rparr>) topic record = alert env topic record"
  "py_str (env\<lparr>sns_publish := publish\<rparr>) v = py_str env v"
  "response_of (env\<lparr>sns_publish := publish\<rparr>) code name text = response_of env code name text"
  by (simp_all add: payload_def configured_topic_def alert_def py_str_def response_of_def
      json_dumps_def cong: sum.case_cong json.case_cong)

subsection \<open>A first record of another shape\<close>




section \<open>The serialisation determines the value\<close>

text \<open>
  Two values with the same serialisation are the same value: \<open>dumps\<close> is injective. The proof
  shows more, so as to go through lists and mappings: a serialisation followed by the end of
  the text or by a character that ends a value determines the value and what follows it.
\<close>

subsection \<open>Numerals\<close>

lemma digit_char_in: "d < 10 \<Longrightarrow> digit_char d \<in> set ''0123456789''"
  unfolding digit_char_def by (rule nth_mem) simp

lemma digit_char_inj: "a < 10 \<Longrightarrow> b < 10 \<Longrightarrow> digit_char a = digit_char b \<Longrightarrow> a = b"
  unfolding digit_char_def
  by (subst (asm) nth_eq_iff_index_eq) simp_all

lemma str_nat_digits: "set (str_nat n) \<subseteq> set ''0123456789''"
proof (induction n rule: str_nat.induct)
  case (1 n)
  show ?case
  proof (cases "n < 10")
    case True
    then show ?thesis
      using digit_char_in [of n] by (subst str_nat.simps) simp
  next
    case False
    have "n mod 10 < 10" by simp
    with False 1 digit_char_in [of "n mod 10"] show ?thesis
      by (subst str_nat.simps) simp
  qed
qed

lemma str_nat_length: "length (str_nat n) = 1 \<longleftrightarrow> n < 10"
proof (cases "n < 10")
  case True
  then show ?thesis by (subst str_nat.simps) simp
next
  case False
  have "str_nat (n div 10) \<noteq> []" by (subst str_nat.simps) simp
  with False show ?thesis by (subst str_nat.simps) (simp add: Suc_le_eq)
qed

lemma str_nat_nonempty: "str_nat n \<noteq> []"
  by (subst str_nat.simps) simp

lemma str_nat_inj: "str_nat n = str_nat m \<Longrightarrow> n = m"
proof (induction n arbitrary: m rule: str_nat.induct)
  case (1 n)
  show ?case
  proof (cases "n < 10")
    case True
    with "1.prems" have "m < 10"
      using str_nat_length [of n] str_nat_length [of m] by simp
    with True "1.prems" show ?thesis
      by (simp add: str_nat.simps [of n] str_nat.simps [of m] digit_char_inj)
  next
    case False
    with "1.prems" have m: "\<not> m < 10"
      using str_nat_length [of n] str_nat_length [of m] by simp
    from "1.prems" False m
    have eq: "str_nat (n div 10) @ [digit_char (n mod 10)] = str_nat (m div 10) @ [digit_char (m mod 10)]"
      by (simp add: str_nat.simps [of n] str_nat.simps [of m])
    then have "str_nat (n div 10) = str_nat (m div 10)" and d: "digit_char (n mod 10) = digit_char (m mod 10)"
      by simp_all
    with False "1.IH" have "n div 10 = m div 10" by simp
    moreover from d have "n mod 10 = m mod 10"
      by (rule digit_char_inj [rotated 2]) simp_all
    ultimately show ?thesis
      by (metis div_mult_mod_eq)
  qed
qed

lemma str_int_inj: "str_int i = str_int j \<Longrightarrow> i = j"
proof -
  have nd: "CHR ''-'' \<notin> set (str_nat n)" for n
    using str_nat_digits [of n] by auto
  have ne: "CHR ''-'' # str_nat a \<noteq> str_nat b" for a b
    using nd [of b] by (metis list.set_intros(1))
  assume "str_int i = str_int j"
  then show ?thesis
    using ne str_nat_inj
    by (auto simp add: str_int_def split: if_splits dest!: str_nat_inj) (metis ne)+
qed

lemma str_int_chars: "set (str_int i) \<subseteq> set ''-0123456789''"
proof -
  have sub: "set ''0123456789'' \<subseteq> set ''-0123456789''"
    by (simp add: subset_insertI2)
  have "set (str_nat n) \<subseteq> set ''-0123456789''" for n
    using str_nat_digits [of n] sub by (rule subset_trans)
  then show ?thesis
    by (cases "i < 0") (simp_all add: str_int_def)
qed

lemma str_int_nonempty: "str_int i \<noteq> []"
  by (simp add: str_int_def str_nat_nonempty)

subsection \<open>String literals\<close>

lemma hex_digit_inj: "a < 16 \<Longrightarrow> b < 16 \<Longrightarrow> hex_digit a = hex_digit b \<Longrightarrow> a = b"
  unfolding hex_digit_def
  by (subst (asm) nth_eq_iff_index_eq) simp_all

lemma escape_char_start: "escape_char c \<noteq> [] \<and> hd (escape_char c) \<noteq> CHR 0x22"
  by (simp add: escape_char_def)

lemma escape_u_inj:
  assumes "hex_digit (of_char c div 16) = hex_digit (of_char c' div 16)"
    and "hex_digit (of_char c mod 16) = hex_digit (of_char c' mod 16)"
  shows "c = c'"
proof -
  have "(of_char c :: nat) div 16 < 16" "(of_char c' :: nat) div 16 < 16"
    by (rule less_mult_imp_div_less, simp)+
  with assms(1) have "(of_char c :: nat) div 16 = of_char c' div 16"
    by (rule hex_digit_inj [rotated 2])
  moreover from assms(2) have "(of_char c :: nat) mod 16 = of_char c' mod 16"
    by (rule hex_digit_inj [rotated 2]) simp_all
  ultimately have "(of_char c :: nat) = of_char c'"
    by (metis div_mult_mod_eq)
  then show ?thesis by simp
qed

lemma escape_char_prefix:
  assumes "escape_char c @ r = escape_char c' @ r'"
  shows "c = c' \<and> r = r'"
  using assms escape_u_inj [of c c']
  by (auto simp add: escape_char_def split: if_splits)


lemma escaped_prefix:
  assumes "concat (map escape_char s) @ CHR 0x22 # t = concat (map escape_char s') @ CHR 0x22 # t'"
  shows "s = s' \<and> t = t'"
  using assms
proof (induction s arbitrary: s')
  case Nil
  show ?case
  proof (cases s')
    case Nil
    with Nil.prems show ?thesis by simp
  next
    case (Cons c' cs')
    obtain x xs where x: "escape_char c' = x # xs" "x \<noteq> CHR 0x22"
      using escape_char_start [of c'] by (cases "escape_char c'") auto
    with Nil.prems Cons show ?thesis by simp
  qed
next
  case (Cons c cs)
  obtain x xs where x: "escape_char c = x # xs" "x \<noteq> CHR 0x22"
    using escape_char_start [of c] by (cases "escape_char c") auto
  show ?case
  proof (cases s')
    case Nil
    with Cons.prems x show ?thesis by simp
  next
    case (Cons c' cs')
    with Cons.prems
    have "escape_char c @ (concat (map escape_char cs) @ CHR 0x22 # t)
        = escape_char c' @ (concat (map escape_char cs') @ CHR 0x22 # t')"
      by simp
    then have "c = c'" and "concat (map escape_char cs) @ CHR 0x22 # t
        = concat (map escape_char cs') @ CHR 0x22 # t'"
      by (auto dest: escape_char_prefix)
    with Cons.IH [of cs'] Cons show ?thesis by simp
  qed
qed

lemma encode_str_prefix:
  assumes "encode_str s @ t = encode_str s' @ t'"
  shows "s = s' \<and> t = t'"
  using assms escaped_prefix [of s t s' t'] by (simp add: encode_str_def)

lemma encode_str_start: "\<exists>cs. encode_str s = CHR 0x22 # cs"
  by (simp add: encode_str_def)

subsection \<open>Lists, mappings and values\<close>

lemma token_split:
  assumes "\<forall>c \<in> set t. \<not> delim c" and "\<forall>c \<in> set t'. \<not> delim c"
    and "tail_ok s" and "tail_ok s'" and "t @ s = t' @ s'"
  shows "t = t' \<and> s = s'"
  using assms
proof (induction t arbitrary: t')
  case Nil
  then show ?case
    by (cases t') (auto simp add: tail_ok_def)
next
  case (Cons a t)
  show ?case
  proof (cases t')
    case Nil
    with Cons.prems show ?thesis by (auto simp add: tail_ok_def)
  next
    case (Cons a' u)
    with Cons.prems Cons.IH [of u] show ?thesis by simp
  qed
qed

lemma join_Cons: "join sep (x # xs) = x @ (if xs = [] then [] else sep @ join sep xs)"
  by (cases xs) simp_all

lemma join_close_inj:
  fixes p :: "'a \<Rightarrow> string"
  assumes elem: "\<And>x y t t'. x \<in> set xs \<Longrightarrow> tail_ok t \<Longrightarrow> tail_ok t' \<Longrightarrow> p x @ t = p y @ t'
      \<Longrightarrow> x = y \<and> t = t'"
    and start: "\<And>y. \<exists>a as. p y = a # as \<and> \<not> delim a"
    and close: "delim c" "c \<noteq> CHR '',''"
    and eq: "join '', '' (map p xs) @ c # s = join '', '' (map p ys) @ c # s'"
  shows "xs = ys \<and> s = s'"
  using elem eq
proof (induction xs arbitrary: ys)
  case Nil
  show ?case
  proof (cases ys)
    case Nil
    with Nil.prems show ?thesis by simp
  next
    case (Cons y ys')
    from start [of y] obtain a as where "p y = a # as" "\<not> delim a" by blast
    with Nil.prems(2) Cons close show ?thesis by (simp add: join_Cons)
  qed
next
  case (Cons x xs)
  let ?R = "if xs = [] then c # s else '', '' @ join '', '' (map p xs) @ c # s"
  have R: "tail_ok ?R" using close by (simp add: tail_ok_def delim_def)
  show ?case
  proof (cases ys)
    case Nil
    from start [of x] obtain a as where "p x = a # as" "\<not> delim a" by blast
    with Cons.prems(2) Nil close show ?thesis by (simp add: join_Cons)
  next
    case (Cons y ys')
    let ?R' = "if ys' = [] then c # s' else '', '' @ join '', '' (map p ys') @ c # s'"
    have R': "tail_ok ?R'" using close by (simp add: tail_ok_def delim_def)
    from Cons.prems(2) Cons have "p x @ ?R = p y @ ?R'"
      by (cases "xs = []"; cases "ys' = []"; simp add: join_Cons)
    from Cons.prems(1) [OF _ R R' this] have xy: "x = y" and RR: "?R = ?R'" by simp_all
    have "xs = ys' \<and> s = s'"
    proof (cases "xs = []")
      case True
      with RR close show ?thesis by (cases "ys' = []") auto
    next
      case False
      with RR close have ys': "ys' \<noteq> []" by (cases "ys' = []") auto
      with RR False have eq': "join '', '' (map p xs) @ c # s = join '', '' (map p ys') @ c # s'"
        by simp
      show ?thesis
      proof (rule Cons.IH [OF _ eq'])
        fix x' y' t t'
        assume "x' \<in> set xs" "tail_ok t" "tail_ok t'" "p x' @ t = p y' @ t'"
        then show "x' = y' \<and> t = t'"
          using Cons.prems(1) [of x' t t' y'] by simp
      qed
    qed
    with xy Cons show ?thesis by simp
  qed
qed

lemma dumps_start:
  assumes "float_repr_ok fr"
  shows "\<exists>a as. dumps fr v = a # as \<and> \<not> delim a"
proof (cases v)
  case (JInt i)
  obtain a as where a: "str_int i = a # as" using str_int_nonempty [of i] by (cases "str_int i") auto
  with str_int_chars [of i] have "a \<in> set ''-0123456789''" by auto
  then have "\<not> delim a" by (auto simp add: delim_def)
  with a JInt show ?thesis by simp
next
  case (JFloat f)
  from assms have "fr f \<noteq> []" "\<forall>c \<in> set (fr f). \<not> delim c"
    by (simp_all add: float_repr_ok_def)
  then obtain a as where "fr f = a # as" "\<not> delim a" by (cases "fr f") auto
  with JFloat show ?thesis by simp
qed (simp_all add: delim_def encode_str_def)

lemma str_int_no_delim: "\<forall>c \<in> set (str_int i). \<not> delim c"
proof
  fix c assume "c \<in> set (str_int i)"
  with str_int_chars [of i] have "c \<in> set ''-0123456789''" by blast
  then show "\<not> delim c" by (auto simp add: delim_def)
qed

lemma str_int_hd: "hd (str_int i) \<in> set ''-0123456789''"
  using str_int_nonempty [of i] str_int_chars [of i] hd_in_set [of "str_int i"] by blast

lemma dumps_hd_eq:
  assumes "float_repr_ok fr" and "dumps fr v @ s = dumps fr v' @ s'"
  shows "hd (dumps fr v) = hd (dumps fr v')"
proof -
  from dumps_start [OF assms(1), of v] obtain a as where "dumps fr v = a # as" by blast
  moreover from dumps_start [OF assms(1), of v'] obtain b bs where "dumps fr v' = b # bs" by blast
  ultimately show ?thesis using assms(2) by simp
qed

lemma number_token:
  assumes ok: "float_repr_ok fr" and "tail_ok s" and "tail_ok s'"
  shows "str_int i @ s = str_int j @ s' \<Longrightarrow> i = j \<and> s = s'"
    and "str_int i @ s = fr f @ s' \<Longrightarrow> False"
    and "fr f @ s = fr g @ s' \<Longrightarrow> f = g \<and> s = s'"
proof -
  have fl: "\<forall>c \<in> set (fr h). \<not> delim c" for h
    using ok by (simp add: float_repr_ok_def)
  show "i = j \<and> s = s'" if "str_int i @ s = str_int j @ s'"
    using token_split [OF str_int_no_delim str_int_no_delim assms(2,3) that]
    by (auto dest: str_int_inj)
  show False if "str_int i @ s = fr f @ s'"
  proof -
    from token_split [OF str_int_no_delim fl assms(2,3) that] have "fr f = str_int i" by simp
    moreover from ok have "fr f \<noteq> str_int i" by (simp add: float_repr_ok_def)
    ultimately show False by simp
  qed
  show "f = g \<and> s = s'" if "fr f @ s = fr g @ s'"
    using token_split [OF fl fl assms(2,3) that] ok
    by (auto simp add: float_repr_ok_def dest: injD)
qed

lemma number_hd:
  assumes "c \<in> set ''-0123456789NI''"
  shows "c \<noteq> CHR ''n''" "c \<noteq> CHR ''t''" "c \<noteq> CHR ''f''" "c \<noteq> CHR 0x22" "c \<noteq> CHR ''[''" "c \<noteq> CHR ''{''"
    "CHR ''n'' \<noteq> c" "CHR ''t'' \<noteq> c" "CHR ''f'' \<noteq> c" "CHR 0x22 \<noteq> c" "CHR ''['' \<noteq> c" "CHR ''{'' \<noteq> c"
  using assms by auto

lemma str_int_hd': "hd (str_int i) \<in> set ''-0123456789NI''"
  using str_int_hd [of i] by auto

lemma float_hd:
  assumes "float_repr_ok fr"
  shows "hd (fr f) \<in> set ''-0123456789NI''"
  using assms by (simp add: float_repr_ok_def)

lemma encode_str_hd: "hd (encode_str s) = CHR 0x22"
  by (simp add: encode_str_def)

lemma dumps_prefix:
  assumes ok: "float_repr_ok fr"
  shows "tail_ok s \<Longrightarrow> tail_ok s' \<Longrightarrow> dumps fr v @ s = dumps fr v' @ s' \<Longrightarrow> v = v' \<and> s = s'"
proof (induction v arbitrary: v' s s')
  case JNull
  note hds = number_hd [OF str_int_hd'] number_hd [OF float_hd [OF ok]]
  from dumps_hd_eq [OF ok JNull(3)] JNull(3) show ?case
    by (cases v') (simp_all add: encode_str_hd hds split: if_splits)
next
  case (JBool b)
  note hds = number_hd [OF str_int_hd'] number_hd [OF float_hd [OF ok]]
  from dumps_hd_eq [OF ok JBool(3)] JBool(3) show ?case
    by (cases v') (auto simp add: encode_str_hd hds split: if_splits)
next
  case (JInt i)
  note hds = number_hd [OF str_int_hd'] number_hd [OF float_hd [OF ok]]
  note num = number_token [OF ok JInt(1,2)]
  from dumps_hd_eq [OF ok JInt(3)] JInt(3) show ?case
    using num(1,2)
    by (cases v') (auto simp add: encode_str_hd hds split: if_splits)
next
  case (JFloat f)
  note hds = number_hd [OF str_int_hd'] number_hd [OF float_hd [OF ok]]
  note num = number_token [OF ok JFloat(1,2)]
  have num': False if "fr f @ s = str_int j @ s'" for j
    using number_token(2) [OF ok JFloat(2,1), of j f] that [symmetric] by simp
  from dumps_hd_eq [OF ok JFloat(3)] JFloat(3) show ?case
    using num(3) num'
    by (cases v') (auto simp add: encode_str_hd hds split: if_splits)
next
  case (JStr x)
  note hds = number_hd [OF str_int_hd'] number_hd [OF float_hd [OF ok]]
  from dumps_hd_eq [OF ok JStr(3)] JStr(3) show ?case
    by (cases v') (auto simp add: encode_str_hd hds split: if_splits dest: encode_str_prefix)
next
  case (JArr xs)
  note hds = number_hd [OF str_int_hd'] number_hd [OF float_hd [OF ok]]
  show ?case
  proof (cases v')
    case (JArr ys)
    with JArr.prems(3)
    have eq: "join '', '' (map (dumps fr) xs) @ CHR '']'' # s = join '', '' (map (dumps fr) ys) @ CHR '']'' # s'"
      by simp
    have "xs = ys \<and> s = s'"
    proof (rule join_close_inj [OF _ _ _ _ eq])
      fix x y t t'
      assume "x \<in> set xs" "tail_ok t" "tail_ok t'" "dumps fr x @ t = dumps fr y @ t'"
      then show "x = y \<and> t = t'" by (rule JArr.IH)
    next
      fix y show "\<exists>a as. dumps fr y = a # as \<and> \<not> delim a" by (rule dumps_start [OF ok])
    qed (simp_all add: delim_def)
    with JArr show ?thesis by simp
  qed (use dumps_hd_eq [OF ok JArr.prems(3)] in
        \<open>auto simp add: encode_str_hd hds split: if_splits\<close>)
next
  case (JObj kvs)
  note hds = number_hd [OF str_int_hd'] number_hd [OF float_hd [OF ok]]
  let ?item = "\<lambda>(k, v). encode_str k @ '': '' @ dumps fr v"
  have items: "(\<lambda>(k, v). encode_str k @ '': '' @ v) \<circ> map_prod id (dumps fr) = ?item"
    by (simp add: fun_eq_iff)
  show ?case
  proof (cases v')
    case (JObj kvs')
    with JObj.prems(3) have "dumps fr (JObj kvs) @ s = dumps fr (JObj kvs') @ s'"
      by simp
    then have eq: "join '', '' (map ?item kvs) @ CHR ''}'' # s = join '', '' (map ?item kvs') @ CHR ''}'' # s'"
      unfolding dumps.simps map_map items by simp
    have "kvs = kvs' \<and> s = s'"
    proof (rule join_close_inj [OF _ _ _ _ eq])
      fix x y t t'
      assume x: "x \<in> set kvs" and t: "tail_ok t" "tail_ok t'" and e: "?item x @ t = ?item y @ t'"
      obtain k v where xk: "x = (k, v)" by (cases x)
      obtain k' v' where yk: "y = (k', v')" by (cases y)
      from e xk yk have "encode_str k @ ('': '' @ dumps fr v @ t) = encode_str k' @ ('': '' @ dumps fr v' @ t')"
        by simp
      then have k: "k = k'" and "dumps fr v @ t = dumps fr v' @ t'"
        by (auto dest: encode_str_prefix)
      with JObj.IH [of x v t t' v'] x xk t have "v = v' \<and> t = t'" by simp
      with k xk yk show "x = y \<and> t = t'" by simp
    next
      fix y show "\<exists>a as. ?item y = a # as \<and> \<not> delim a"
        by (cases y) (simp add: encode_str_def delim_def)
    qed (simp_all add: delim_def)
    with JObj show ?thesis by simp
  qed (use dumps_hd_eq [OF ok JObj.prems(3)] in
        \<open>auto simp add: encode_str_hd hds split: if_splits\<close>)
qed

lemma dumps_inj:
  assumes "float_repr_ok fr"
  shows "inj (dumps fr)"
proof (rule injI)
  fix v v' assume "dumps fr v = dumps fr v'"
  then have "dumps fr v @ [] = dumps fr v' @ []" by simp
  with dumps_prefix [OF assms, of "[]" "[]" v v'] show "v = v'"
    by (simp add: tail_ok_def)
qed

lemma json_dumps_inj:
  assumes "float_repr_ok (float_repr env)"
  shows "inj (json_dumps env)"
  using dumps_inj [OF assms] by (simp add: inj_def json_dumps_def)

subsection \<open>The float printer of the examples\<close>

lemma point_split:
  assumes "CHR ''.'' \<notin> set a" and "CHR ''.'' \<notin> set a'" and "a @ CHR ''.'' # b = a' @ CHR ''.'' # b'"
  shows "a = a' \<and> b = b'"
  using assms
proof (induction a arbitrary: a')
  case Nil
  then show ?case by (cases a') auto
next
  case (Cons x a)
  then show ?case by (cases a') auto
qed

lemma str_nat_no_point: "c \<in> set (str_nat n) \<Longrightarrow> c \<in> set ''0123456789''"
  using str_nat_digits [of n] by blast

lemma str_int_no_point: "c \<in> set (str_int i) \<Longrightarrow> c \<in> set ''-0123456789''"
  using str_int_chars [of i] by blast

lemma finite_repr_chars:
  "c \<in> set (str_int n @ ''.'' @ str_nat m) \<Longrightarrow> c \<in> set ''-0123456789.''"
  using str_int_no_point [of c n] str_nat_no_point [of c m] by auto

lemma finite_repr_inj:
  assumes "str_int n @ ''.'' @ str_nat m = str_int n' @ ''.'' @ str_nat m'"
  shows "n = n' \<and> m = m'"
proof -
  have "CHR ''.'' \<notin> set (str_int k)" for k
    using str_int_no_point [of "CHR ''.''" k] by auto
  from point_split [OF this this] assms have "str_int n = str_int n'" "str_nat m = str_nat m'"
    by simp_all
  then show ?thesis by (simp add: str_int_inj str_nat_inj)
qed

lemma example_finite_inj:
  assumes "example_float_repr (Finite q) = example_float_repr (Finite q')"
  shows "q = q'"
proof -
  obtain n d where q: "quotient_of q = (n, d)" by (cases "quotient_of q")
  obtain n' d' where q': "quotient_of q' = (n', d')" by (cases "quotient_of q'")
  from q q' have pos: "0 < d" "0 < d'" by (auto dest: quotient_of_denom_pos)
  from assms q q' have "n = n' \<and> nat d - 1 = nat d' - 1"
    by (intro finite_repr_inj) (simp add: example_float_repr_def)
  with pos have "n = n'" "d = d'" by auto
  with q q' show ?thesis by (simp add: quotient_of_inject)
qed

lemma str_int_not_minus_zero: "str_int n \<noteq> ''-0''"
proof (cases "n < 0")
  case True
  have "str_nat 0 = ''0''" by (simp add: str_nat.simps digit_char_def)
  then have "str_nat (nat (- n)) \<noteq> ''0''"
    using True str_nat_inj [of "nat (- n)" 0] by auto
  with True show ?thesis by (simp add: str_int_def)
next
  case False
  have "CHR ''-'' \<notin> set (str_nat (nat n))"
    using str_nat_no_point [of "CHR ''-''" "nat n"] by auto
  then have "str_nat (nat n) \<noteq> ''-0''" by auto
  with False show ?thesis by (simp add: str_int_def)
qed

lemma example_finite_not_negzero: "example_float_repr (Finite q) \<noteq> ''-0.0''"
proof
  assume a: "example_float_repr (Finite q) = ''-0.0''"
  obtain n d where q: "quotient_of q = (n, d)" by (cases "quotient_of q")
  have "CHR ''.'' \<notin> set (str_int k)" for k
    using str_int_no_point [of "CHR ''.''" k] by auto
  from point_split [OF this, of "''-0''" n "str_nat (nat d - 1)" "''0''"] a q
  have "str_int n = ''-0''" by (simp add: example_float_repr_def)
  with str_int_not_minus_zero show False by simp
qed

lemma example_finite_chars:
  "c \<in> set (example_float_repr (Finite q)) \<Longrightarrow> c \<in> set ''-0123456789.''"
  using finite_repr_chars [of c "fst (quotient_of q)" "nat (snd (quotient_of q)) - 1"]
  by (simp add: example_float_repr_def)

lemma example_float_chars:
  "c \<in> set (example_float_repr f) \<Longrightarrow> c \<in> set ''-0123456789.InfityNa''"
proof (cases f)
  case (Finite q)
  assume "c \<in> set (example_float_repr f)"
  with Finite example_finite_chars [of c q] show ?thesis by auto
qed (auto simp add: example_float_repr_def split: if_splits)

lemma example_float_point_or_letter:
  "CHR ''.'' \<in> set (example_float_repr f) \<or> CHR ''a'' \<in> set (example_float_repr f)
   \<or> CHR ''f'' \<in> set (example_float_repr f)"
  by (cases f) (auto simp add: example_float_repr_def)

lemma example_finite_not_special:
  "example_float_repr (Finite q) \<noteq> ''Infinity''"
  "example_float_repr (Finite q) \<noteq> ''-Infinity''"
  "example_float_repr (Finite q) \<noteq> ''NaN''"
proof -
  have f: "CHR ''f'' \<notin> set (example_float_repr (Finite q))"
    and a: "CHR ''a'' \<notin> set (example_float_repr (Finite q))"
    using example_finite_chars [of _ q] by auto
  show "example_float_repr (Finite q) \<noteq> ''Infinity''"
  proof
    assume "example_float_repr (Finite q) = ''Infinity''"
    with f show False by simp
  qed
  show "example_float_repr (Finite q) \<noteq> ''-Infinity''"
  proof
    assume "example_float_repr (Finite q) = ''-Infinity''"
    with f show False by simp
  qed
  show "example_float_repr (Finite q) \<noteq> ''NaN''"
  proof
    assume "example_float_repr (Finite q) = ''NaN''"
    with a show False by simp
  qed
qed

lemma example_float_inj: "inj example_float_repr"
proof (rule injI)
  fix f g assume eq: "example_float_repr f = example_float_repr g"
  note fin = example_finite_not_negzero example_finite_not_special
  note special = example_float_repr_def [of NegZero] example_float_repr_def [of NaN]
    example_float_repr_def [of "Infinity _"]
  show "f = g"
  proof (cases f)
    case f: (Finite q)
    show ?thesis
    proof (cases g)
      case (Finite q')
      with eq f example_finite_inj [of q q'] show ?thesis by simp
    qed (use eq f fin [of q] in \<open>auto simp add: special split: if_splits\<close>)
  next
    case f: NegZero
    show ?thesis
    proof (cases g)
      case (Finite q')
      with eq f fin [of q'] show ?thesis by (auto simp add: special)
    qed (use eq f in \<open>auto simp add: special split: if_splits\<close>)
  next
    case f: (Infinity b)
    show ?thesis
    proof (cases g)
      case (Finite q')
      with eq f fin [of q'] show ?thesis by (auto simp add: special split: if_splits)
    qed (use eq f in \<open>auto simp add: special split: if_splits\<close>)
  next
    case f: NaN
    show ?thesis
    proof (cases g)
      case (Finite q')
      with eq f fin [of q'] show ?thesis by (auto simp add: special)
    qed (use eq f in \<open>auto simp add: special split: if_splits\<close>)
  qed
qed

lemma example_float_repr_ok: "float_repr_ok example_float_repr"
  unfolding float_repr_ok_def
proof (intro conjI allI ballI)
  show "inj example_float_repr" by (rule example_float_inj)
next
  fix f show "example_float_repr f \<noteq> []"
    by (cases f) (simp_all add: example_float_repr_def str_nat_nonempty)
next
  fix f
  have "hd (str_int n @ t) \<in> set ''-0123456789NI''" for n t
    using str_int_hd' [of n] str_int_nonempty [of n] by (cases "str_int n") simp_all
  then show "hd (example_float_repr f) \<in> set ''-0123456789NI''"
    by (cases f) (simp_all add: example_float_repr_def)
next
  fix f c assume "c \<in> set (example_float_repr f)"
  from example_float_chars [OF this] show "\<not> delim c" by (auto simp add: delim_def)
next
  fix f i
  show "example_float_repr f \<noteq> str_int i"
    using example_float_point_or_letter [of f] str_int_no_point [of "CHR ''.''" i]
      str_int_no_point [of "CHR ''a''" i] str_int_no_point [of "CHR ''f''" i]
    by auto
qed

section \<open>The claims\<close>

lemma example_location:
  "first_record example_event = Some example_s3_record"
  "bucket_name example_s3_record = Some (JStr ''trail-bucket'')"
  "object_key example_s3_record = Some (JStr ''AWSLogs/a.json.gz'')"
  by (simp_all add: example_event_def example_s3_record_def first_record_def bucket_name_def
      object_key_def)

lemma example_payload:
  "payload (example_env topic batch) (JStr ''trail-bucket'') (JStr ''AWSLogs/a.json.gz'') = Some batch"
  by (simp add: payload_def example_env_def)

lemma example_matches:
  "matches stop_logging" "\<not> matches list_buckets" "matches console_login"
  by (simp_all add: matches_def matched_names_def stop_logging_def list_buckets_def console_login_def)

lemma example_dicts:
  "is_dict stop_logging" "is_dict list_buckets" "is_dict console_login"
  by (simp_all add: stop_logging_def list_buckets_def console_login_def)

text \<open>
  C1, as amended. A notification locates a file that is read and parses to a batch whose
  \<^verbatim>\<open>Records\<close> are \<open>N\<close> mappings, \<open>M\<close> of them with an \<^verbatim>\<open>eventName\<close> in the matched set. Then the
  handler answers 200 with a message that reports \<open>M\<close>; with a topic configured it sends SNS
  exactly the \<open>M\<close> requests for the matched records, in the order of the batch; with none
  configured it sends nothing and each of the \<open>M\<close> skipped publications leaves one entry of
  level \<^verbatim>\<open>CRITICAL\<close> in the log; and \<open>N\<close> is reported in the last line written to the
  log, not in the response.
\<close>

theorem matched_records_published_in_order:
  assumes "first_record event = Some r" and "bucket_name r = Some bucket"
    and "object_key r = Some key" and "truthy bucket" and "truthy key"
    and "payload env bucket key = Some (JObj d)"
    and "map_of d ''Records'' = Some (JArr recs)"
    and "list_all is_dict recs"
  shows "fst (lambda_handler env event w) =
           \<lparr>statusCode = 200,
            body = json_dumps env (JObj [(''message'', JStr
              (''Successfully processed CloudTrail log: '' @ py_str env key
               @ ''. Found '' @ str_nat (length (filter matches recs)) @ '' matching events.''))])\<rparr>
       \<and> sns_calls (snd (lambda_handler env event w)) =
           sns_calls w @ (case configured_topic env of
                            None \<Rightarrow> []
                          | Some topic \<Rightarrow> map (alert env topic) (filter matches recs))
       \<and> critical_count (snd (lambda_handler env event w)) =
           critical_count w + (case configured_topic env of
                                 None \<Rightarrow> length (filter matches recs)
                               | Some topic \<Rightarrow> 0)
       \<and> last (logged (snd (lambda_handler env event w))) =
           (INFO, ''Successfully processed '' @ str_nat (length recs)
                    @ '' records from '' @ quoted (py_str env key) @ ''. Found ''
                    @ str_nat (length (filter matches recs)) @ '' matching events.'')"
proof -
  have recs: "map_of d ''Records'' = None \<and> recs = [] \<or> map_of d ''Records'' = Some (JArr recs)"
    using assms(7) by simp
  note valid = lambda_handler_valid [OF assms(1-6) recs assms(8)]
  show ?thesis
    by (simp add: valid(1,2,4,5) response_of_def alerts_def split: option.splits)
qed

theorem matched_records_published_in_order_witness:
  "first_record example_event = Some example_s3_record
   \<and> payload (example_env (Some ''arn:aws:sns:alerts'') (batch_of [stop_logging, list_buckets, console_login]))
       (JStr ''trail-bucket'') (JStr ''AWSLogs/a.json.gz'')
     = Some (batch_of [stop_logging, list_buckets, console_login])
   \<and> statusCode (fst (lambda_handler
         (example_env (Some ''arn:aws:sns:alerts'') (batch_of [stop_logging, list_buckets, console_login]))
         example_event empty_world)) = 200
   \<and> map (\<lambda>(topic, message, subject). subject) (sns_calls (snd (lambda_handler
         (example_env (Some ''arn:aws:sns:alerts'') (batch_of [stop_logging, list_buckets, console_login]))
         example_event empty_world)))
     = [''CloudTrail Event: StopLogging'', ''CloudTrail Event: ConsoleLogin'']
   \<and> last (logged (snd (lambda_handler
         (example_env (Some ''arn:aws:sns:alerts'') (batch_of [stop_logging, list_buckets, console_login]))
         example_event empty_world)))
     = (INFO, ''Successfully processed 3 records from '' @ quoted ''AWSLogs/a.json.gz''
              @ ''. Found 2 matching events.'')"
proof -
  let ?env = "example_env (Some ''arn:aws:sns:alerts'') (batch_of [stop_logging, list_buckets, console_login])"
  have p: "payload ?env (JStr ''trail-bucket'') (JStr ''AWSLogs/a.json.gz'')
             = Some (JObj [(''Records'', JArr [stop_logging, list_buckets, console_login])])"
    by (simp add: example_payload batch_of_def)
  have t: "configured_topic ?env = Some ''arn:aws:sns:alerts''"
    by (simp add: configured_topic_def example_env_def json_dumps_def)
  have b: "truthy (JStr ''trail-bucket'')" and k: "truthy (JStr ''AWSLogs/a.json.gz'')"
    by simp_all
  have recs: "map_of [(''Records'', JArr [stop_logging, list_buckets, console_login])] ''Records''
      = Some (JArr [stop_logging, list_buckets, console_login])"
    by simp
  have dicts: "list_all is_dict [stop_logging, list_buckets, console_login]"
    by (simp add: example_dicts)
  note run = matched_records_published_in_order [OF example_location b k p recs dicts, of empty_world]
  have status: "statusCode (fst (lambda_handler ?env example_event empty_world)) = 200"
    unfolding run [THEN conjunct1] by simp
  have calls: "sns_calls (snd (lambda_handler ?env example_event empty_world))
      = [alert ?env ''arn:aws:sns:alerts'' stop_logging, alert ?env ''arn:aws:sns:alerts'' console_login]"
    unfolding run [THEN conjunct2, THEN conjunct1]
    by (simp add: t example_matches empty_world_def)
  have subjects: "map (\<lambda>(topic, message, subject). subject)
        (sns_calls (snd (lambda_handler ?env example_event empty_world)))
      = [''CloudTrail Event: StopLogging'', ''CloudTrail Event: ConsoleLogin'']"
    unfolding calls by (simp add: alert_def stop_logging_def console_login_def)
  have line: "last (logged (snd (lambda_handler ?env example_event empty_world)))
      = (INFO, ''Successfully processed 3 records from '' @ quoted ''AWSLogs/a.json.gz''
              @ ''. Found 2 matching events.'')"
    unfolding run [THEN conjunct2, THEN conjunct2, THEN conjunct2]
    by (simp add: example_matches py_str_def str_nat.simps digit_char_def)
  show ?thesis
    by (intro conjI example_location(1) example_payload status subjects line)
qed

text \<open>
  C1, as the specification states it, has the response report the number of records seen.
  Two runs on the same notification, one over a file of two records and one over a file of
  one record, both with one matched record, return the same response: its message counts
  the matched records only.
\<close>

theorem response_omits_records_seen:
  "payload (example_env (Some ''arn:aws:sns:alerts'') (batch_of [stop_logging, list_buckets]))
       (JStr ''trail-bucket'') (JStr ''AWSLogs/a.json.gz'') = Some (batch_of [stop_logging, list_buckets])
   \<and> payload (example_env (Some ''arn:aws:sns:alerts'') (batch_of [stop_logging]))
       (JStr ''trail-bucket'') (JStr ''AWSLogs/a.json.gz'') = Some (batch_of [stop_logging])
   \<and> fst (lambda_handler (example_env (Some ''arn:aws:sns:alerts'') (batch_of [stop_logging, list_buckets]))
         example_event empty_world)
     = \<lparr>statusCode = 200, body = ''{'' @ double_quoted ''message'' @ '': '' @ double_quoted
          ''Successfully processed CloudTrail log: AWSLogs/a.json.gz. Found 1 matching events.'' @ ''}''\<rparr>
   \<and> fst (lambda_handler (example_env (Some ''arn:aws:sns:alerts'') (batch_of [stop_logging]))
         example_event empty_world)
     = \<lparr>statusCode = 200, body = ''{'' @ double_quoted ''message'' @ '': '' @ double_quoted
          ''Successfully processed CloudTrail log: AWSLogs/a.json.gz. Found 1 matching events.'' @ ''}''\<rparr>"
proof -
  let ?envA = "example_env (Some ''arn:aws:sns:alerts'') (batch_of [stop_logging, list_buckets])"
  let ?envB = "example_env (Some ''arn:aws:sns:alerts'') (batch_of [stop_logging])"
  have pA: "payload ?envA (JStr ''trail-bucket'') (JStr ''AWSLogs/a.json.gz'')
             = Some (JObj [(''Records'', JArr [stop_logging, list_buckets])])"
    by (simp add: example_payload batch_of_def)
  have pB: "payload ?envB (JStr ''trail-bucket'') (JStr ''AWSLogs/a.json.gz'')
             = Some (JObj [(''Records'', JArr [stop_logging])])"
    by (simp add: example_payload batch_of_def)
  have A: "fst (lambda_handler ?envA example_event empty_world) =
      response_of ?envA 200 ''message'' (''Successfully processed CloudTrail log: ''
        @ py_str ?envA (JStr ''AWSLogs/a.json.gz'') @ ''. Found ''
        @ str_nat (length (filter matches [stop_logging, list_buckets])) @ '' matching events.'')"
    by (rule lambda_handler_valid(1) [OF example_location _ _ pA]) (simp_all add: example_dicts)
  have B: "fst (lambda_handler ?envB example_event empty_world) =
      response_of ?envB 200 ''message'' (''Successfully processed CloudTrail log: ''
        @ py_str ?envB (JStr ''AWSLogs/a.json.gz'') @ ''. Found ''
        @ str_nat (length (filter matches [stop_logging])) @ '' matching events.'')"
    by (rule lambda_handler_valid(1) [OF example_location _ _ pB]) (simp_all add: example_dicts)
  have rA: "fst (lambda_handler ?envA example_event empty_world)
     = \<lparr>statusCode = 200, body = ''{'' @ double_quoted ''message'' @ '': '' @ double_quoted
          ''Successfully processed CloudTrail log: AWSLogs/a.json.gz. Found 1 matching events.'' @ ''}''\<rparr>"
    unfolding A
    by (simp add: example_matches response_of_def py_str_def example_env_def json_dumps_def
        str_nat.simps digit_char_def double_quoted_def encode_str_def escape_char_def)
  have rB: "fst (lambda_handler ?envB example_event empty_world)
     = \<lparr>statusCode = 200, body = ''{'' @ double_quoted ''message'' @ '': '' @ double_quoted
          ''Successfully processed CloudTrail log: AWSLogs/a.json.gz. Found 1 matching events.'' @ ''}''\<rparr>"
    unfolding B
    by (simp add: example_matches response_of_def py_str_def example_env_def json_dumps_def
        str_nat.simps digit_char_def double_quoted_def encode_str_def escape_char_def)
  show ?thesis
    by (intro conjI example_payload rA rB)
qed

text \<open>
  C2. On a record (a mapping) the matcher returns true exactly when the \<^verbatim>\<open>eventName\<close> field is
  there and its value is one of \<^verbatim>\<open>StopLogging\<close>, \<^verbatim>\<open>UpdateTrail\<close>, \<^verbatim>\<open>ConsoleLogin\<close>,
  \<^verbatim>\<open>DeleteTrail\<close>; in particular it returns false when the field is absent. This holds for
  \<open>process_cloudtrail_event\<close> and for \<open>matching_rule\<close> of the second variant.
\<close>

theorem matcher_tests_event_name:
  "fst (process_cloudtrail_event env (JObj kvs) w) =
     Inr (map_of kvs ''eventName'' \<in> {Some (JStr ''StopLogging''), Some (JStr ''UpdateTrail''),
                                        Some (JStr ''ConsoleLogin''), Some (JStr ''DeleteTrail'')})
   \<and> fst (matching_rule env (JObj kvs) w) =
     Inr (map_of kvs ''eventName'' \<in> {Some (JStr ''StopLogging''), Some (JStr ''UpdateTrail''),
                                        Some (JStr ''ConsoleLogin''), Some (JStr ''DeleteTrail'')})
   \<and> (map_of kvs ''eventName'' = None \<longrightarrow>
        fst (process_cloudtrail_event env (JObj kvs) w) = Inr False
      \<and> fst (matching_rule env (JObj kvs) w) = Inr False)"
  by (auto simp add: process_cloudtrail_event_def matching_rule_def criteria_events_def
      split: option.splits)

theorem matcher_tests_event_name_witness:
  "fst (process_cloudtrail_event (example_env None JNull) console_login empty_world) = Inr True
   \<and> fst (matching_rule (example_env None JNull) console_login empty_world) = Inr True
   \<and> fst (process_cloudtrail_event (example_env None JNull) list_buckets empty_world) = Inr False
   \<and> map_of [(''eventID'', JStr ''e-4'')] ''eventName'' = None
   \<and> fst (process_cloudtrail_event (example_env None JNull) (JObj [(''eventID'', JStr ''e-4'')]) empty_world)
       = Inr False
   \<and> fst (matching_rule (example_env None JNull) (JObj [(''eventID'', JStr ''e-4'')]) empty_world)
       = Inr False"
  using matcher_tests_event_name [of "example_env None JNull"
      "[(''eventID'', JStr ''e-3''), (''eventName'', JStr ''ConsoleLogin'')]" empty_world]
    matcher_tests_event_name [of "example_env None JNull"
      "[(''eventName'', JStr ''ListBuckets''), (''eventID'', JStr ''e-2'')]" empty_world]
    matcher_tests_event_name [of "example_env None JNull" "[(''eventID'', JStr ''e-4'')]" empty_world]
  by (simp add: console_login_def list_buckets_def)

text \<open>
  C3. The notification locates a file, and fetching it, decompressing it, decoding it or
  parsing it as JSON fails (\<open>payload_None_iff\<close>). Then the handler answers 500, sends
  nothing to SNS and skips no publication either (no entry of level \<^verbatim>\<open>CRITICAL\<close> is logged).
\<close>

theorem unreadable_file_is_500_without_publish:
  assumes "first_record event = Some r" and "bucket_name r = Some bucket"
    and "object_key r = Some key" and "truthy bucket" and "truthy key"
    and "payload env bucket key = None"
  shows "fst (lambda_handler env event w) =
           \<lparr>statusCode = 500,
            body = json_dumps env (JObj [(''error'', JStr
              (''Failed to retrieve or process CloudTrail logs: '' @ py_str env key))])\<rparr>
       \<and> sns_calls (snd (lambda_handler env event w)) = sns_calls w
       \<and> critical_count (snd (lambda_handler env event w)) = critical_count w"
  by (simp add: lambda_handler_failed(1,2,4) [OF assms] response_of_def)

theorem unreadable_file_is_500_without_publish_witness:
  "payload ((example_env (Some ''arn:aws:sns:alerts'') (batch_of [stop_logging]))
       \<lparr>s3_get_object := \<lambda>bucket key. Inl (OtherError ''NoSuchKey'')\<rparr>)
     (JStr ''trail-bucket'') (JStr ''AWSLogs/a.json.gz'') = None
   \<and> statusCode (fst (lambda_handler ((example_env (Some ''arn:aws:sns:alerts'') (batch_of [stop_logging]))
       \<lparr>s3_get_object := \<lambda>bucket key. Inl (OtherError ''NoSuchKey'')\<rparr>) example_event empty_world)) = 500
   \<and> sns_calls (snd (lambda_handler ((example_env (Some ''arn:aws:sns:alerts'') (batch_of [stop_logging]))
       \<lparr>s3_get_object := \<lambda>bucket key. Inl (OtherError ''NoSuchKey'')\<rparr>) example_event empty_world)) = []
   \<and> payload ((example_env (Some ''arn:aws:sns:alerts'') (batch_of [stop_logging]))
       \<lparr>s3_get_object := \<lambda>bucket key. Inr [105, 110, 118]\<rparr>)
     (JStr ''trail-bucket'') (JStr ''AWSLogs/a.json.gz'') = None
   \<and> statusCode (fst (lambda_handler ((example_env (Some ''arn:aws:sns:alerts'') (batch_of [stop_logging]))
       \<lparr>s3_get_object := \<lambda>bucket key. Inr [105, 110, 118]\<rparr>) example_event empty_world)) = 500
   \<and> sns_calls (snd (lambda_handler ((example_env (Some ''arn:aws:sns:alerts'') (batch_of [stop_logging]))
       \<lparr>s3_get_object := \<lambda>bucket key. Inr [105, 110, 118]\<rparr>) example_event empty_world)) = []
   \<and> payload ((example_env (Some ''arn:aws:sns:alerts'') (batch_of [stop_logging]))
       \<lparr>json_loads := \<lambda>text. Inl (JSONDecodeError ''Expecting value'')\<rparr>)
     (JStr ''trail-bucket'') (JStr ''AWSLogs/a.json.gz'') = None
   \<and> statusCode (fst (lambda_handler ((example_env (Some ''arn:aws:sns:alerts'') (batch_of [stop_logging]))
       \<lparr>json_loads := \<lambda>text. Inl (JSONDecodeError ''Expecting value'')\<rparr>) example_event empty_world)) = 500
   \<and> sns_calls (snd (lambda_handler ((example_env (Some ''arn:aws:sns:alerts'') (batch_of [stop_logging]))
       \<lparr>json_loads := \<lambda>text. Inl (JSONDecodeError ''Expecting value'')\<rparr>) example_event empty_world)) = []"
proof -
  let ?env = "example_env (Some ''arn:aws:sns:alerts'') (batch_of [stop_logging])"
  let ?gone = "?env\<lparr>s3_get_object := \<lambda>bucket key. Inl (OtherError ''NoSuchKey'')\<rparr>"
  let ?corrupt = "?env\<lparr>s3_get_object := \<lambda>bucket key. Inr [105, 110, 118]\<rparr>"
  let ?malformed = "?env\<lparr>json_loads := \<lambda>text. Inl (JSONDecodeError ''Expecting value'')\<rparr>"
  have b: "truthy (JStr ''trail-bucket'')" and k: "truthy (JStr ''AWSLogs/a.json.gz'')"
    by simp_all
  have gone: "payload ?gone (JStr ''trail-bucket'') (JStr ''AWSLogs/a.json.gz'') = None"
    by (simp add: payload_def example_env_def)
  have corrupt: "payload ?corrupt (JStr ''trail-bucket'') (JStr ''AWSLogs/a.json.gz'') = None"
    by (simp add: payload_def example_env_def)
  have malformed: "payload ?malformed (JStr ''trail-bucket'') (JStr ''AWSLogs/a.json.gz'') = None"
    by (simp add: payload_def example_env_def)
  note run1 = unreadable_file_is_500_without_publish [OF example_location b k gone, of empty_world]
  note run2 = unreadable_file_is_500_without_publish [OF example_location b k corrupt, of empty_world]
  note run3 = unreadable_file_is_500_without_publish [OF example_location b k malformed, of empty_world]
  have s1: "statusCode (fst (lambda_handler ?gone example_event empty_world)) = 500"
    unfolding run1 [THEN conjunct1] by simp
  have s2: "statusCode (fst (lambda_handler ?corrupt example_event empty_world)) = 500"
    unfolding run2 [THEN conjunct1] by simp
  have s3: "statusCode (fst (lambda_handler ?malformed example_event empty_world)) = 500"
    unfolding run3 [THEN conjunct1] by simp
  have c1: "sns_calls (snd (lambda_handler ?gone example_event empty_world)) = []"
    unfolding run1 [THEN conjunct2, THEN conjunct1] by (simp add: empty_world_def)
  have c2: "sns_calls (snd (lambda_handler ?corrupt example_event empty_world)) = []"
    unfolding run2 [THEN conjunct2, THEN conjunct1] by (simp add: empty_world_def)
  have c3: "sns_calls (snd (lambda_handler ?malformed example_event empty_world)) = []"
    unfolding run3 [THEN conjunct2, THEN conjunct1] by (simp add: empty_world_def)
  show ?thesis
    by (intro conjI gone corrupt malformed s1 s2 s3 c1 c2 c3)
qed

text \<open>
  C4. No topic is configured (\<^verbatim>\<open>SnsArn\<close> is unset or empty), and the file is read and holds
  \<open>N\<close> records of which \<open>M\<close> match. Then the handler still answers 200 with a message
  that reports \<open>M\<close>, nothing is sent to SNS, and each of the \<open>M\<close> skipped publications
  leaves one entry of level \<^verbatim>\<open>CRITICAL\<close> in the log.
\<close>

theorem missing_topic_still_succeeds:
  assumes "first_record event = Some r" and "bucket_name r = Some bucket"
    and "object_key r = Some key" and "truthy bucket" and "truthy key"
    and "payload env bucket key = Some (JObj d)"
    and "map_of d ''Records'' = Some (JArr recs)"
    and "list_all is_dict recs"
    and "sns_topic_arn env = None \<or> sns_topic_arn env = Some []"
  shows "fst (lambda_handler env event w) =
           \<lparr>statusCode = 200,
            body = json_dumps env (JObj [(''message'', JStr
              (''Successfully processed CloudTrail log: '' @ py_str env key
               @ ''. Found '' @ str_nat (length (filter matches recs)) @ '' matching events.''))])\<rparr>
       \<and> sns_calls (snd (lambda_handler env event w)) = sns_calls w
       \<and> critical_count (snd (lambda_handler env event w)) =
           critical_count w + length (filter matches recs)"
proof -
  have recs: "map_of d ''Records'' = None \<and> recs = [] \<or> map_of d ''Records'' = Some (JArr recs)"
    using assms(7) by simp
  have none: "configured_topic env = None"
    using assms(9) by (auto simp: configured_topic_def)
  note valid = lambda_handler_valid [OF assms(1-6) recs assms(8)]
  show ?thesis
    by (simp add: valid(1,2,5) response_of_def none alerts_unconfigured)
qed

theorem missing_topic_still_succeeds_witness:
  "sns_topic_arn (example_env None (batch_of [stop_logging, list_buckets, console_login])) = None
   \<and> payload (example_env None (batch_of [stop_logging, list_buckets, console_login]))
       (JStr ''trail-bucket'') (JStr ''AWSLogs/a.json.gz'')
     = Some (batch_of [stop_logging, list_buckets, console_login])
   \<and> fst (lambda_handler (example_env None (batch_of [stop_logging, list_buckets, console_login]))
         example_event empty_world)
     = \<lparr>statusCode = 200, body = ''{'' @ double_quoted ''message'' @ '': '' @ double_quoted
          ''Successfully processed CloudTrail log: AWSLogs/a.json.gz. Found 2 matching events.'' @ ''}''\<rparr>
   \<and> sns_calls (snd (lambda_handler (example_env None (batch_of [stop_logging, list_buckets, console_login]))
         example_event empty_world)) = []
   \<and> critical_count (snd (lambda_handler (example_env None (batch_of [stop_logging, list_buckets, console_login]))
         example_event empty_world)) = 2"
proof -
  let ?env = "example_env None (batch_of [stop_logging, list_buckets, console_login])"
  have p: "payload ?env (JStr ''trail-bucket'') (JStr ''AWSLogs/a.json.gz'')
             = Some (JObj [(''Records'', JArr [stop_logging, list_buckets, console_login])])"
    by (simp add: example_payload batch_of_def)
  have t: "sns_topic_arn ?env = None"
    by (simp add: example_env_def json_dumps_def)
  have b: "truthy (JStr ''trail-bucket'')" and k: "truthy (JStr ''AWSLogs/a.json.gz'')"
    by simp_all
  have recs: "map_of [(''Records'', JArr [stop_logging, list_buckets, console_login])] ''Records''
      = Some (JArr [stop_logging, list_buckets, console_login])"
    by simp
  have dicts: "list_all is_dict [stop_logging, list_buckets, console_login]"
    by (simp add: example_dicts)
  note run = missing_topic_still_succeeds [OF example_location b k p recs dicts disjI1 [OF t], of empty_world]
  have resp: "fst (lambda_handler ?env example_event empty_world)
     = \<lparr>statusCode = 200, body = ''{'' @ double_quoted ''message'' @ '': '' @ double_quoted
          ''Successfully processed CloudTrail log: AWSLogs/a.json.gz. Found 2 matching events.'' @ ''}''\<rparr>"
    unfolding run [THEN conjunct1]
    by (simp add: example_matches py_str_def example_env_def json_dumps_def str_nat.simps digit_char_def
        double_quoted_def encode_str_def escape_char_def)
  have calls: "sns_calls (snd (lambda_handler ?env example_event empty_world)) = []"
    unfolding run [THEN conjunct2, THEN conjunct1] by (simp add: empty_world_def)
  have crit: "critical_count (snd (lambda_handler ?env example_event empty_world)) = 2"
    unfolding run [THEN conjunct2, THEN conjunct2]
    by (simp add: example_matches empty_world_def critical_count_def)
  show ?thesis
    by (intro conjI t example_payload resp calls crit)
qed




text \<open>
  C6. The notification is a mapping whose \<^verbatim>\<open>Records\<close> are absent or an empty list. Then the
  handler answers 200 ("No S3 records to process."), and neither S3 nor SNS is asked for
  anything.
\<close>

theorem no_records_is_200_without_calls:
  assumes "map_of ev ''Records'' = None \<or> map_of ev ''Records'' = Some (JArr [])"
  shows "fst (lambda_handler env (JObj ev) w) =
           \<lparr>statusCode = 200,
            body = json_dumps env (JObj [(''message'', JStr ''No S3 records to process.'')])\<rparr>
       \<and> s3_calls (snd (lambda_handler env (JObj ev) w)) = s3_calls w
       \<and> sns_calls (snd (lambda_handler env (JObj ev) w)) = sns_calls w"
  by (simp add: lambda_handler_no_records [OF assms] response_of_def)

theorem no_records_is_200_without_calls_witness:
  "map_of [(''Records'', JArr [])] ''Records'' = Some (JArr [])
   \<and> statusCode (fst (lambda_handler (example_env (Some ''arn:aws:sns:alerts'') (batch_of [stop_logging]))
        (JObj [(''Records'', JArr [])]) empty_world)) = 200
   \<and> s3_calls (snd (lambda_handler (example_env (Some ''arn:aws:sns:alerts'') (batch_of [stop_logging]))
        (JObj [(''Records'', JArr [])]) empty_world)) = []
   \<and> sns_calls (snd (lambda_handler (example_env (Some ''arn:aws:sns:alerts'') (batch_of [stop_logging]))
        (JObj [(''Records'', JArr [])]) empty_world)) = []
   \<and> map_of [] ''Records'' = (None :: json option)
   \<and> statusCode (fst (lambda_handler (example_env (Some ''arn:aws:sns:alerts'') (batch_of [stop_logging]))
        (JObj []) empty_world)) = 200"
proof -
  let ?env = "example_env (Some ''arn:aws:sns:alerts'') (batch_of [stop_logging])"
  have e: "map_of [(''Records'', JArr [])] ''Records'' = Some (JArr [])"
    by simp
  have a: "map_of [] ''Records'' = (None :: json option)"
    by simp
  note run = no_records_is_200_without_calls [OF disjI2 [OF e], of ?env empty_world]
  note run' = no_records_is_200_without_calls [OF disjI1 [OF a], of ?env empty_world]
  have status: "statusCode (fst (lambda_handler ?env (JObj [(''Records'', JArr [])]) empty_world)) = 200"
    unfolding run [THEN conjunct1] by simp
  have s3: "s3_calls (snd (lambda_handler ?env (JObj [(''Records'', JArr [])]) empty_world)) = []"
    unfolding run [THEN conjunct2, THEN conjunct1] by (simp add: empty_world_def)
  have sns: "sns_calls (snd (lambda_handler ?env (JObj [(''Records'', JArr [])]) empty_world)) = []"
    unfolding run [THEN conjunct2, THEN conjunct2] by (simp add: empty_world_def)
  have status': "statusCode (fst (lambda_handler ?env (JObj []) empty_world)) = 200"
    unfolding run' [THEN conjunct1] by simp
  show ?thesis
    by (intro conjI e a status s3 sns status')
qed

text \<open>
  C7. The file is read and parses to a mapping whose \<^verbatim>\<open>Records\<close> are absent or an empty
  list. Then the handler answers 200 with a message that reports 0 matching events, nothing
  is sent to SNS and no publication is skipped either.
\<close>

theorem empty_batch_is_200_without_publish:
  assumes "first_record event = Some r" and "bucket_name r = Some bucket"
    and "object_key r = Some key" and "truthy bucket" and "truthy key"
    and "payload env bucket key = Some (JObj d)"
    and "map_of d ''Records'' = None \<or> map_of d ''Records'' = Some (JArr [])"
  shows "fst (lambda_handler env event w) =
           \<lparr>statusCode = 200,
            body = json_dumps env (JObj [(''message'', JStr
              (''Successfully processed CloudTrail log: '' @ py_str env key
               @ ''. Found 0 matching events.''))])\<rparr>
       \<and> sns_calls (snd (lambda_handler env event w)) = sns_calls w
       \<and> critical_count (snd (lambda_handler env event w)) = critical_count w"
proof -
  have recs: "map_of d ''Records'' = None \<and> ([] :: json list) = []
      \<or> map_of d ''Records'' = Some (JArr [])"
    using assms(7) by simp
  have dicts: "list_all is_dict []"
    by simp
  note valid = lambda_handler_valid [OF assms(1-6) recs dicts]
  show ?thesis
    by (simp add: valid(1,2,5) response_of_def)
qed

theorem empty_batch_is_200_without_publish_witness:
  "payload (example_env (Some ''arn:aws:sns:alerts'') (JObj [(''Owner'', JStr ''audit'')]))
       (JStr ''trail-bucket'') (JStr ''AWSLogs/a.json.gz'') = Some (JObj [(''Owner'', JStr ''audit'')])
   \<and> map_of [(''Owner'', JStr ''audit'')] ''Records'' = None
   \<and> fst (lambda_handler (example_env (Some ''arn:aws:sns:alerts'') (JObj [(''Owner'', JStr ''audit'')]))
         example_event empty_world)
     = \<lparr>statusCode = 200, body = ''{'' @ double_quoted ''message'' @ '': '' @ double_quoted
          ''Successfully processed CloudTrail log: AWSLogs/a.json.gz. Found 0 matching events.'' @ ''}''\<rparr>
   \<and> sns_calls (snd (lambda_handler (example_env (Some ''arn:aws:sns:alerts'') (JObj [(''Owner'', JStr ''audit'')]))
         example_event empty_world)) = []"
proof -
  let ?env = "example_env (Some ''arn:aws:sns:alerts'') (JObj [(''Owner'', JStr ''audit'')])"
  have b: "truthy (JStr ''trail-bucket'')" and k: "truthy (JStr ''AWSLogs/a.json.gz'')"
    by simp_all
  have a: "map_of [(''Owner'', JStr ''audit'')] ''Records'' = None"
    by simp
  note run = empty_batch_is_200_without_publish [OF example_location b k example_payload disjI1 [OF a],
      of "Some ''arn:aws:sns:alerts''" empty_world]
  have resp: "fst (lambda_handler ?env example_event empty_world)
     = \<lparr>statusCode = 200, body = ''{'' @ double_quoted ''message'' @ '': '' @ double_quoted
          ''Successfully processed CloudTrail log: AWSLogs/a.json.gz. Found 0 matching events.'' @ ''}''\<rparr>"
    unfolding run [THEN conjunct1]
    by (simp add: py_str_def example_env_def json_dumps_def double_quoted_def encode_str_def escape_char_def)
  have calls: "sns_calls (snd (lambda_handler ?env example_event empty_world)) = []"
    unfolding run [THEN conjunct2, THEN conjunct1] by (simp add: empty_world_def)
  show ?thesis
    by (intro conjI example_payload a resp calls)
qed

text \<open>
  C8. A topic is configured and the file is read. Whatever \<^verbatim>\<open>sns.publish\<close> does with each
  request (the environment \<open>env\<lparr>sns_publish := publish\<rparr>\<close>, for any \<open>publish\<close>: it may raise
  for one record, for several or for all), the handler sends the requests for all the matched
  records, in order, and returns the same 200 response as in the environment \<open>env\<close>.
\<close>

theorem publish_failure_does_not_stop_batch:
  assumes "first_record event = Some r" and "bucket_name r = Some bucket"
    and "object_key r = Some key" and "truthy bucket" and "truthy key"
    and "payload env bucket key = Some (JObj d)"
    and "map_of d ''Records'' = Some (JArr recs)"
    and "list_all is_dict recs"
    and "configured_topic env = Some topic"
  shows "sns_calls (snd (lambda_handler (env\<lparr>sns_publish := publish\<rparr>) event w)) =
           sns_calls w @ map (alert env topic) (filter matches recs)
       \<and> fst (lambda_handler (env\<lparr>sns_publish := publish\<rparr>) event w) = fst (lambda_handler env event w)
       \<and> statusCode (fst (lambda_handler (env\<lparr>sns_publish := publish\<rparr>) event w)) = 200"
proof -
  let ?env = "env\<lparr>sns_publish := publish\<rparr>"
  have recs: "map_of d ''Records'' = None \<and> recs = [] \<or> map_of d ''Records'' = Some (JArr recs)"
    using assms(7) by simp
  have p: "payload ?env bucket key = Some (JObj d)"
    using assms(6) by (simp add: publish_update)
  have t: "configured_topic ?env = Some topic"
    using assms(9) by (simp add: publish_update)
  have a: "alert ?env topic = alert env topic"
    by (rule ext) (simp add: publish_update)
  note valid = lambda_handler_valid [OF assms(1-6) recs assms(8)]
  note valid' = lambda_handler_valid [OF assms(1-5) p recs assms(8)]
  have calls: "sns_calls (snd (lambda_handler ?env event w)) =
      sns_calls w @ map (alert env topic) (filter matches recs)"
    by (simp add: valid'(2) alerts_configured [OF t] a)
  have same: "fst (lambda_handler ?env event w) = fst (lambda_handler env event w)"
    unfolding valid(1) valid'(1) by (simp add: publish_update)
  have status: "statusCode (fst (lambda_handler ?env event w)) = 200"
    unfolding valid'(1) by (simp add: response_of_def)
  show ?thesis
    by (intro conjI calls same status)
qed

theorem publish_failure_does_not_stop_batch_witness:
  "sns_publish (example_env (Some ''arn:aws:sns:alerts'') (batch_of [stop_logging, list_buckets, console_login]))
       0 ''arn:aws:sns:alerts''
       (json_dumps (example_env (Some ''arn:aws:sns:alerts'') (batch_of [stop_logging, list_buckets, console_login]))
          stop_logging)
       ''CloudTrail Event: StopLogging''
     = Inl (OtherError ''Throttling'')
   \<and> map (\<lambda>(topic, message, subject). subject) (sns_calls (snd (lambda_handler
         ((example_env (Some ''arn:aws:sns:alerts'') (batch_of [stop_logging, list_buckets, console_login]))
            \<lparr>sns_publish := sns_publish
               (example_env (Some ''arn:aws:sns:alerts'') (batch_of [stop_logging, list_buckets, console_login]))\<rparr>)
         example_event empty_world)))
     = [''CloudTrail Event: StopLogging'', ''CloudTrail Event: ConsoleLogin'']
   \<and> statusCode (fst (lambda_handler
         ((example_env (Some ''arn:aws:sns:alerts'') (batch_of [stop_logging, list_buckets, console_login]))
            \<lparr>sns_publish := sns_publish
               (example_env (Some ''arn:aws:sns:alerts'') (batch_of [stop_logging, list_buckets, console_login]))\<rparr>)
         example_event empty_world)) = 200
   \<and> fst (lambda_handler
         ((example_env (Some ''arn:aws:sns:alerts'') (batch_of [stop_logging, list_buckets, console_login]))
            \<lparr>sns_publish := \<lambda>n topic message subject. Inr ''message-id''\<rparr>)
         example_event empty_world)
     = fst (lambda_handler
         (example_env (Some ''arn:aws:sns:alerts'') (batch_of [stop_logging, list_buckets, console_login]))
         example_event empty_world)"
proof -
  let ?env = "example_env (Some ''arn:aws:sns:alerts'') (batch_of [stop_logging, list_buckets, console_login])"
  have p: "payload ?env (JStr ''trail-bucket'') (JStr ''AWSLogs/a.json.gz'')
             = Some (JObj [(''Records'', JArr [stop_logging, list_buckets, console_login])])"
    by (simp add: example_payload batch_of_def)
  have t: "configured_topic ?env = Some ''arn:aws:sns:alerts''"
    by (simp add: configured_topic_def example_env_def json_dumps_def)
  have b: "truthy (JStr ''trail-bucket'')" and k: "truthy (JStr ''AWSLogs/a.json.gz'')"
    by simp_all
  have recs: "map_of [(''Records'', JArr [stop_logging, list_buckets, console_login])] ''Records''
      = Some (JArr [stop_logging, list_buckets, console_login])"
    by simp
  have dicts: "list_all is_dict [stop_logging, list_buckets, console_login]"
    by (simp add: example_dicts)
  note run = publish_failure_does_not_stop_batch [OF example_location b k p recs dicts t,
      of "sns_publish ?env" empty_world]
  note run' = publish_failure_does_not_stop_batch [OF example_location b k p recs dicts t,
      of "\<lambda>n topic message subject. Inr ''message-id''" empty_world]
  have refused: "sns_publish ?env 0 ''arn:aws:sns:alerts'' (json_dumps ?env stop_logging)
      ''CloudTrail Event: StopLogging'' = Inl (OtherError ''Throttling'')"
    by (simp add: example_env_def json_dumps_def)
  have subjects: "map (\<lambda>(topic, message, subject). subject)
        (sns_calls (snd (lambda_handler (?env\<lparr>sns_publish := sns_publish ?env\<rparr>) example_event empty_world)))
      = [''CloudTrail Event: StopLogging'', ''CloudTrail Event: ConsoleLogin'']"
    unfolding run [THEN conjunct1]
    by (simp add: matches_def matched_names_def empty_world_def alert_def stop_logging_def
        list_buckets_def console_login_def)
  show ?thesis
    by (intro conjI refused subjects run [THEN conjunct2, THEN conjunct2]
        run' [THEN conjunct2, THEN conjunct1])
qed

text \<open>
  C9. A topic is configured and the file is read. The message bodies of the requests the
  handler sends are, in order, \<^verbatim>\<open>json.dumps\<close> of the matched records as the file holds them,
  and the subject lines are built from their \<^verbatim>\<open>eventName\<close>. The serialisation is injective
  (floats being printed as \<open>float_repr_ok\<close> says): a message body is the body of one record
  only, so it preserves every field, name and value, at every depth, and decoding the bodies
  gives back the matched records exactly as they were parsed. Nothing between parsing and
  publishing has changed a record.
\<close>

theorem published_message_is_whole_record:
  assumes "first_record event = Some r" and "bucket_name r = Some bucket"
    and "object_key r = Some key" and "truthy bucket" and "truthy key"
    and "payload env bucket key = Some (JObj d)"
    and "map_of d ''Records'' = Some (JArr recs)"
    and "list_all is_dict recs"
    and "configured_topic env = Some topic"
    and "float_repr_ok (float_repr env)"
  shows "map (\<lambda>(topic, message, subject). message)
           (drop (length (sns_calls w)) (sns_calls (snd (lambda_handler env event w))))
         = map (json_dumps env) (filter matches recs)
       \<and> inj (json_dumps env)
       \<and> map (the_inv (json_dumps env))
           (map (\<lambda>(topic, message, subject). message)
              (drop (length (sns_calls w)) (sns_calls (snd (lambda_handler env event w)))))
         = filter matches recs
       \<and> map (\<lambda>(topic, message, subject). subject)
           (drop (length (sns_calls w)) (sns_calls (snd (lambda_handler env event w))))
         = map (\<lambda>record. ''CloudTrail Event: ''
                 @ (case field ''eventName'' record of Some (JStr name) \<Rightarrow> name | _ \<Rightarrow> []))
             (filter matches recs)"
proof -
  have recs: "map_of d ''Records'' = None \<and> recs = [] \<or> map_of d ''Records'' = Some (JArr recs)"
    using assms(7) by simp
  note valid = lambda_handler_valid [OF assms(1-6) recs assms(8)]
  have messages: "map (\<lambda>(topic, message, subject). message)
      (drop (length (sns_calls w)) (sns_calls (snd (lambda_handler env event w))))
    = map (json_dumps env) (filter matches recs)"
    by (simp add: valid(2) alerts_configured [OF assms(9)] alert_def comp_def)
  have subjects: "map (\<lambda>(topic, message, subject). subject)
      (drop (length (sns_calls w)) (sns_calls (snd (lambda_handler env event w))))
    = map (\<lambda>record. ''CloudTrail Event: ''
            @ (case field ''eventName'' record of Some (JStr name) \<Rightarrow> name | _ \<Rightarrow> []))
        (filter matches recs)"
    by (simp add: valid(2) alerts_configured [OF assms(9)] alert_def comp_def)
  have inj: "inj (json_dumps env)"
    by (rule json_dumps_inj [OF assms(10)])
  have decoded: "map (the_inv (json_dumps env)) (map (json_dumps env) (filter matches recs))
      = filter matches recs"
    by (simp add: comp_def the_inv_f_f [OF inj])
  show ?thesis
    unfolding messages using inj decoded subjects [unfolded messages]
    by (intro conjI) (simp_all add: subjects)
qed

theorem published_message_is_whole_record_witness:
  "configured_topic (example_env (Some ''arn:aws:sns:alerts'') (batch_of [list_buckets, rich_record]))
     = Some ''arn:aws:sns:alerts''
   \<and> float_repr_ok (float_repr (example_env (Some ''arn:aws:sns:alerts'') (batch_of [list_buckets, rich_record])))
   \<and> map (\<lambda>(topic, message, subject). message) (sns_calls (snd (lambda_handler
         (example_env (Some ''arn:aws:sns:alerts'') (batch_of [list_buckets, rich_record]))
         example_event empty_world)))
     = [''{'' @ double_quoted ''eventName'' @ '': '' @ double_quoted ''DeleteTrail'' @ '', ''
          @ double_quoted ''readOnly'' @ '': false, ''
          @ double_quoted ''errorCode'' @ '': null, ''
          @ double_quoted ''attempts'' @ '': 3, ''
          @ double_quoted ''offset'' @ '': -12, ''
          @ double_quoted ''latency'' @ '': 2.0, ''
          @ double_quoted ''drift'' @ '': -0.0, ''
          @ double_quoted ''resources'' @ '': ['' @ double_quoted ''trail/a'' @ '', [], true], ''
          @ double_quoted ''userIdentity'' @ '': {'' @ double_quoted ''type'' @ '': ''
          @ double_quoted ''Root'' @ '', '' @ double_quoted ''note'' @ '': ''
          @ double_quoted ([CHR 0x5C, CHR 0x22] @ ''hi'' @ [CHR 0x5C, CHR 0x22]) @ ''}}'']
   \<and> map (the_inv (json_dumps (example_env (Some ''arn:aws:sns:alerts'') (batch_of [list_buckets, rich_record]))))
         (map (\<lambda>(topic, message, subject). message) (sns_calls (snd (lambda_handler
           (example_env (Some ''arn:aws:sns:alerts'') (batch_of [list_buckets, rich_record]))
           example_event empty_world))))
     = [rich_record]
   \<and> map (\<lambda>(topic, message, subject). subject) (sns_calls (snd (lambda_handler
         (example_env (Some ''arn:aws:sns:alerts'') (batch_of [list_buckets, rich_record]))
         example_event empty_world)))
     = [''CloudTrail Event: DeleteTrail'']"
proof -
  let ?env = "example_env (Some ''arn:aws:sns:alerts'') (batch_of [list_buckets, rich_record])"
  have p: "payload ?env (JStr ''trail-bucket'') (JStr ''AWSLogs/a.json.gz'')
             = Some (JObj [(''Records'', JArr [list_buckets, rich_record])])"
    by (simp add: example_payload batch_of_def)
  have t: "configured_topic ?env = Some ''arn:aws:sns:alerts''"
    by (simp add: configured_topic_def example_env_def)
  have ok: "float_repr_ok (float_repr ?env)"
    by (simp add: example_env_def example_float_repr_ok)
  have b: "truthy (JStr ''trail-bucket'')" and k: "truthy (JStr ''AWSLogs/a.json.gz'')"
    by simp_all
  have recs: "map_of [(''Records'', JArr [list_buckets, rich_record])] ''Records''
      = Some (JArr [list_buckets, rich_record])"
    by simp
  have dicts: "list_all is_dict [list_buckets, rich_record]"
    by (simp add: example_dicts rich_record_def)
  have m: "filter matches [list_buckets, rich_record] = [rich_record]"
    by (simp add: matches_def matched_names_def list_buckets_def rich_record_def)
  have d0: "drop (length (sns_calls empty_world)) xs = xs" for xs :: "(string \<times> string \<times> string) list"
    by (simp add: empty_world_def)
  note run = published_message_is_whole_record [OF example_location b k p recs dicts t ok,
      of empty_world, unfolded d0 m]
  have messages: "map (\<lambda>(topic, message, subject). message)
        (sns_calls (snd (lambda_handler ?env example_event empty_world)))
      = [''{'' @ double_quoted ''eventName'' @ '': '' @ double_quoted ''DeleteTrail'' @ '', ''
          @ double_quoted ''readOnly'' @ '': false, ''
          @ double_quoted ''errorCode'' @ '': null, ''
          @ double_quoted ''attempts'' @ '': 3, ''
          @ double_quoted ''offset'' @ '': -12, ''
          @ double_quoted ''latency'' @ '': 2.0, ''
          @ double_quoted ''drift'' @ '': -0.0, ''
          @ double_quoted ''resources'' @ '': ['' @ double_quoted ''trail/a'' @ '', [], true], ''
          @ double_quoted ''userIdentity'' @ '': {'' @ double_quoted ''type'' @ '': ''
          @ double_quoted ''Root'' @ '', '' @ double_quoted ''note'' @ '': ''
          @ double_quoted ([CHR 0x5C, CHR 0x22] @ ''hi'' @ [CHR 0x5C, CHR 0x22]) @ ''}}'']"
    unfolding run [THEN conjunct1]
    by (simp add: json_dumps_def example_env_def rich_record_def double_quoted_def encode_str_def
        escape_char_def str_int_def str_nat.simps digit_char_def example_float_repr_def)
  have subjects: "map (\<lambda>(topic, message, subject). subject)
        (sns_calls (snd (lambda_handler ?env example_event empty_world)))
      = [''CloudTrail Event: DeleteTrail'']"
    unfolding run [THEN conjunct2, THEN conjunct2, THEN conjunct2]
    by (simp add: rich_record_def)
  show ?thesis
    by (intro conjI t ok messages subjects run [THEN conjunct2, THEN conjunct2, THEN conjunct1])
qed



section \<open>Outside the expected shapes\<close>

text \<open>
  The theorems above are about notifications, batches and records of the shapes the interface
  describes. Values of other shapes reach the handler's last \<^verbatim>\<open>except\<close> clause (or the one of
  \<open>fetch_cloudtrail_log\<close>) and are answered with 500. Three instances follow.
\<close>

text \<open>An \<^verbatim>\<open>s3\<close> entry that is \<^verbatim>\<open>null\<close>: \<^verbatim>\<open>.get\<close> returns \<^verbatim>\<open>None\<close>, not the default.\<close>

lemma null_s3_is_unhandled:
  "fst (lambda_handler env (JObj [(''Records'', JArr [JObj [(''s3'', JNull)]])]) w) =
     response_of env 500 ''error''
       (''Error processing S3 event: '' @ quoted ''NoneType'' @ '' object has no attribute ''
        @ quoted ''get'')"
  "s3_calls (snd (lambda_handler env (JObj [(''Records'', JArr [JObj [(''s3'', JNull)]])]) w)) = s3_calls w"
  by (simp_all add: lambda_handler_def handler_body_def)

text \<open>
  A file that parses to something other than a mapping: the f-string of the debug line in
  \<open>fetch_cloudtrail_log\<close> calls \<^verbatim>\<open>.get\<close> on it, and the function returns \<^verbatim>\<open>None\<close>.
\<close>

lemma payload_not_a_mapping_is_500:
  assumes "first_record event = Some r" and "bucket_name r = Some bucket"
    and "object_key r = Some key" and "truthy bucket" and "truthy key"
    and "payload env bucket key = Some v" and "\<not> is_dict v"
  shows "fst (lambda_handler env event w) =
           response_of env 500 ''error''
             (''Failed to retrieve or process CloudTrail logs: '' @ py_str env key)"
    and "sns_calls (snd (lambda_handler env event w)) = sns_calls w"
proof -
  let ?w0 = "log_msg INFO (''Lambda function invoked with event: '' @ py_str env event) w"
  let ?w1 = "log_msg INFO (''Processing CloudTrail log file: '' @ quoted (py_str env key)
                 @ '' from bucket: '' @ quoted (py_str env bucket)) ?w0"
  have "fst (fetch_cloudtrail_log env bucket key ?w1) = None"
    using assms(6,7)
    by (cases v) (auto simp add: fetch_cloudtrail_log_def payload_def Let_def split: sum.splits)
  then obtain w2 where f: "fetch_cloudtrail_log env bucket key ?w1 = (None, w2)"
    by (cases "fetch_cloudtrail_log env bucket key ?w1") simp
  have w2: "sns_calls w2 = sns_calls w"
    using fetch_sns [of env bucket key ?w1] unfolding f by simp
  have "process_log_file env bucket key ?w0 =
      (Inr (response_of env 500 ''error''
              (''Failed to retrieve or process CloudTrail logs: '' @ py_str env key)),
       log_msg ERROR (''Failed to fetch or process CloudTrail log from S3. ''
                @ ''Exiting processing for '' @ quoted (py_str env key) @ ''.'') w2)"
    unfolding process_log_file_def Let_def f by simp
  then have "lambda_handler env event w =
      (response_of env 500 ''error''
              (''Failed to retrieve or process CloudTrail logs: '' @ py_str env key),
       log_msg ERROR (''Failed to fetch or process CloudTrail log from S3. ''
                @ ''Exiting processing for '' @ quoted (py_str env key) @ ''.'') w2)"
    using lambda_handler_returns [of env event w] handler_body_located [OF assms(1-5), of env ?w0]
    by simp
  then show "fst (lambda_handler env event w) =
           response_of env 500 ''error''
             (''Failed to retrieve or process CloudTrail logs: '' @ py_str env key)"
    and "sns_calls (snd (lambda_handler env event w)) = sns_calls w"
    by (simp_all add: w2)
qed

text \<open>
  A record that is not a mapping: the loop stops there with an exception, after the matched
  records before it have been sent.
\<close>

lemma record_not_a_mapping_is_unhandled:
  "fst (process_records env [JObj [(''eventName'', JStr ''StopLogging'')], JStr ''x'',
      JObj [(''eventName'', JStr ''DeleteTrail'')]] 0 0 w)
     = Inl (AttributeError (quoted ''str'' @ '' object has no attribute '' @ quoted ''get''))"
  "sns_calls (snd (process_records env [JObj [(''eventName'', JStr ''StopLogging'')], JStr ''x'',
      JObj [(''eventName'', JStr ''DeleteTrail'')]] 0 0 w))
     = sns_calls w @ alerts env [JObj [(''eventName'', JStr ''StopLogging'')]]"
  by (simp_all add: process_cloudtrail_event_def criteria_events_def send_to_sns_calls
      matches_def matched_names_def)

end
